theory Spec2Isabelle
  imports Main
begin

section \<open>JavaScript strings and numbers\<close>

text \<open>
  A JavaScript string is modelled as a \<open>string\<close>: a list of code units, here the code
  units below 256. A JavaScript number that holds an integer is modelled as an \<open>int\<close>.
  The helpers below are the methods of \<open>String.prototype\<close> and \<open>Array.prototype\<close>
  that \<open>src/util.ts\<close> and the \<open>semver\<close> package call.
\<close>

definition isSpace :: "char \<Rightarrow> bool" where
  \<comment> \<open>the class \<open>\s\<close> and the characters \<open>trim\<close> removes: tab, line feed, vertical tab,
      form feed, carriage return, space and no-break space\<close>
  "isSpace c =
     (c \<in> set [CHR 0x09, CHR 0x0A, CHR 0x0B, CHR 0x0C, CHR 0x0D, CHR 0x20, CHR 0xA0])"

definition isLineTerminator :: "char \<Rightarrow> bool" where
  "isLineTerminator c = (c = CHR 0x0A \<or> c = CHR 0x0D)"

definition isDigit :: "char \<Rightarrow> bool" where
  \<comment> \<open>the class \<open>\d\<close>\<close>
  "isDigit c = (c \<in> set ''0123456789'')"

definition startsWith :: "string \<Rightarrow> string \<Rightarrow> bool" where
  \<comment> \<open>\<open>s.startsWith(p)\<close>\<close>
  "startsWith s p = (take (length p) s = p)"

definition endsWith :: "string \<Rightarrow> string \<Rightarrow> bool" where
  \<comment> \<open>\<open>s.endsWith(p)\<close>\<close>
  "endsWith s p = (length p \<le> length s \<and> drop (length s - length p) s = p)"

definition substring :: "string \<Rightarrow> nat \<Rightarrow> string" where
  \<comment> \<open>\<open>s.substring(n)\<close>, one argument\<close>
  "substring s n = drop n s"

definition trim :: "string \<Rightarrow> string" where
  \<comment> \<open>\<open>s.trim()\<close>\<close>
  "trim s = rev (dropWhile isSpace (rev (dropWhile isSpace s)))"

fun split_chr :: "char \<Rightarrow> string \<Rightarrow> string list" where
  \<comment> \<open>\<open>s.split(c)\<close> for a separator of one character; \<open>''''.split(c)\<close> is \<open>['''']\<close>\<close>
  "split_chr c [] = [[]]"
| "split_chr c (x # xs) =
     (if x = c then [] # split_chr c xs
      else (case split_chr c xs of [] \<Rightarrow> [[x]] | y # ys \<Rightarrow> (x # y) # ys))"

fun split_bars :: "string \<Rightarrow> string list" where
  \<comment> \<open>\<open>s.split('||')\<close>\<close>
  "split_bars [] = [[]]"
| "split_bars [x] = [[x]]"
| "split_bars (x # y # zs) =
     (if x = CHR ''|'' \<and> y = CHR ''|'' then [] # split_bars zs
      else (case split_bars (y # zs) of [] \<Rightarrow> [[x]] | p # ps \<Rightarrow> (x # p) # ps))"

function split_spaces :: "string \<Rightarrow> string list" where
  \<comment> \<open>\<open>s.split(/\s+/)\<close>: the pieces between the maximal runs of white space\<close>
  "split_spaces [] = [[]]"
| "split_spaces (x # xs) =
     (if isSpace x then [] # split_spaces (dropWhile isSpace xs)
      else (case split_spaces xs of [] \<Rightarrow> [[x]] | p # ps \<Rightarrow> (x # p) # ps))"
  by pat_completeness auto
termination
  by (relation "measure length") (auto simp: less_Suc_eq_le length_dropWhile_le)

function collapse_spaces :: "string \<Rightarrow> string" where
  \<comment> \<open>\<open>s.replace(/\s+/g, ' ')\<close>\<close>
  "collapse_spaces [] = []"
| "collapse_spaces (x # xs) =
     (if isSpace x then CHR '' '' # collapse_spaces (dropWhile isSpace xs)
      else x # collapse_spaces xs)"
  by pat_completeness auto
termination
  by (relation "measure length") (auto simp: less_Suc_eq_le length_dropWhile_le)

fun join :: "string \<Rightarrow> string list \<Rightarrow> string" where
  \<comment> \<open>\<open>xs.join(sep)\<close> on an array of strings\<close>
  "join sep [] = []"
| "join sep [x] = x"
| "join sep (x # y # ys) = x @ sep @ join sep (y # ys)"

fun string_less :: "string \<Rightarrow> string \<Rightarrow> bool" where
  \<comment> \<open>\<open>a < b\<close> on two strings: by code units\<close>
  "string_less [] [] = False"
| "string_less [] (y # ys) = True"
| "string_less (x # xs) [] = False"
| "string_less (x # xs) (y # ys) =
     (if x = y then string_less xs ys else (of_char x :: int) < of_char y)"

definition digit_char :: "int \<Rightarrow> char" where
  "digit_char d = ''0123456789'' ! nat (d mod 10)"

function decimal_digits :: "int \<Rightarrow> string" where
  "decimal_digits n =
     (if n < 10 then [digit_char n] else decimal_digits (n div 10) @ [digit_char n])"
  by pat_completeness auto
termination
proof (relation "measure nat")
  show "wf (measure nat)" by simp
next
  fix n :: int
  assume "\<not> n < 10"
  then have "0 \<le> n div 10 \<and> n div 10 < n" by presburger
  then show "(n div 10, n) \<in> measure nat" by simp
qed

declare decimal_digits.simps [simp del]

definition number_toString :: "int \<Rightarrow> string" where
  \<comment> \<open>\<open>String(n)\<close> and \<open>`${n}`\<close> for a number that is an integer of magnitude below
      \<open>10^21\<close>: its decimal digits. (From \<open>10^21\<close> on JavaScript prints an exponent. The
      only such numbers here are version components that the \<open>SemVer\<close> constructor
      refuses in either rendering: the exponent form does not match its expression, and
      the digits exceed \<open>MAX_SAFE_INTEGER\<close>.)\<close>
  "number_toString n = (if n < 0 then CHR ''-'' # decimal_digits (- n) else decimal_digits n)"

definition digit_value :: "char \<Rightarrow> int" where
  \<comment> \<open>the value of a decimal digit\<close>
  "digit_value c = (if isDigit c then (of_char c :: int) - 48 else 0)"

definition digits_value :: "string \<Rightarrow> int" where
  "digits_value s = foldl (\<lambda>n c. 10 * n + digit_value c) 0 s"

function bit_length :: "int \<Rightarrow> nat" where
  "bit_length n = (if n \<le> 0 then 0 else Suc (bit_length (n div 2)))"
  by pat_completeness auto
termination
  by (relation "measure nat") simp_all

declare bit_length.simps [simp del]

definition round_double :: "int \<Rightarrow> int" where
  \<comment> \<open>the double nearest to a non-negative integer below \<open>2^1024\<close>, ties to even: a
      number keeps 53 significant bits\<close>
  "round_double n =
     (if n < 9007199254740992 then n
      else let e = bit_length n - 53;
               q = n div 2 ^ e;
               r = n mod 2 ^ e;
               half = 2 ^ (e - 1)
           in (if half < r \<or> (r = half \<and> odd q) then q + 1 else q) * 2 ^ e)"

definition toNumber :: "string \<Rightarrow> int" where
  \<comment> \<open>\<open>+s\<close> for a string of decimal digits\<close>
  "toNumber s = round_double (digits_value s)"

definition truthy :: "string option \<Rightarrow> bool" where
  \<comment> \<open>the truth value of a string that may be \<open>undefined\<close> or \<open>null\<close>\<close>
  "truthy x = (case x of None \<Rightarrow> False | Some s \<Rightarrow> s \<noteq> [])"

datatype js_error = TypeError

fun mapM :: "('a \<Rightarrow> js_error + 'b) \<Rightarrow> 'a list \<Rightarrow> js_error + 'b list" where
  \<comment> \<open>\<open>xs.map(f)\<close> where \<open>f\<close> may throw: the first exception ends the loop\<close>
  "mapM f [] = Inr []"
| "mapM f (x # xs) =
     (case f x of
        Inl e \<Rightarrow> Inl e
      | Inr y \<Rightarrow> (case mapM f xs of Inl e \<Rightarrow> Inl e | Inr ys \<Rightarrow> Inr (y # ys)))"

section \<open>Regular expressions\<close>

text \<open>
  The regular expressions of \<open>src/util.ts\<close> and of \<open>semver/internal/re.js\<close> are values
  of the datatype \<open>regex\<close>; \<open>rmatch\<close> is the backtracking matcher of ECMAScript on
  them. From a position it returns every way to match, in the order backtracking tries
  them, so the head of the list is the match JavaScript reports. A state holds the text
  before the position (reversed), the text from the position on, and the captures, the
  latest first. No capturing group of the expressions below stands under \<open>*\<close> or \<open>+\<close>,
  so a capture is never reset by a later iteration.
\<close>

datatype charset =
    CChar char
  | CRange char char
  | CDigit
  | CSpace
  | CUnion "charset list"
  | CNot charset

fun in_charset :: "charset \<Rightarrow> char \<Rightarrow> bool" where
  "in_charset (CChar a) c = (c = a)"
| "in_charset (CRange a b) c = ((of_char a :: int) \<le> of_char c \<and> (of_char c :: int) \<le> of_char b)"
| "in_charset CDigit c = isDigit c"
| "in_charset CSpace c = isSpace c"
| "in_charset (CUnion cs) c = list_ex (\<lambda>s. in_charset s c) cs"
| "in_charset (CNot s) c = (\<not> in_charset s c)"

datatype regex =
    REmpty
  | RSet charset
  | RSeq regex regex
  | RAlt regex regex
  | RRep nat "nat option" regex
  | RGroup nat regex
  | RBol
  | REol
  | RLookbehind regex

type_synonym groups = "(nat \<times> string) list"

type_synonym mstate = "string \<times> string \<times> groups"

fun rsize :: "regex \<Rightarrow> nat" where
  "rsize REmpty = 0"
| "rsize (RSet cs) = 0"
| "rsize (RSeq r1 r2) = Suc (rsize r1 + rsize r2)"
| "rsize (RAlt r1 r2) = Suc (rsize r1 + rsize r2)"
| "rsize (RRep lo hi r) = Suc (rsize r + lo)"
| "rsize (RGroup n r) = Suc (rsize r)"
| "rsize RBol = 0"
| "rsize REol = 0"
| "rsize (RLookbehind r) = Suc (rsize r)"

definition hi_pred :: "nat option \<Rightarrow> nat option" where
  "hi_pred hi = map_option (\<lambda>h. h - 1) hi"

function rmatch :: "bool \<Rightarrow> regex \<Rightarrow> mstate \<Rightarrow> mstate list" where
  \<comment> \<open>the first argument is the flag \<open>m\<close>. \<open>RRep lo hi r\<close> is the greedy \<open>r{lo,hi}\<close>
      (\<open>hi = None\<close>: no upper bound): one more round of \<open>r\<close> is tried before stopping,
      and once \<open>lo\<close> rounds are done a round that matches the empty string is dropped.
      A lookbehind holds when \<open>r\<close> matches some text that ends at the position.\<close>
  "rmatch ml REmpty s = [s]"
| "rmatch ml (RSet cs) (b, rest, caps) =
     (case rest of
        [] \<Rightarrow> []
      | x # xs \<Rightarrow> if in_charset cs x then [(x # b, xs, caps)] else [])"
| "rmatch ml (RSeq r1 r2) s = concat (map (rmatch ml r2) (rmatch ml r1 s))"
| "rmatch ml (RAlt r1 r2) s = rmatch ml r1 s @ rmatch ml r2 s"
| "rmatch ml (RRep lo hi r) (b, rest, caps) =
     (if hi = Some 0 then [(b, rest, caps)]
      else concat (map (rmatch ml (RRep (lo - 1) (hi_pred hi) r))
                     (filter (\<lambda>s'. 0 < lo \<or> length (fst (snd s')) < length rest)
                        (rmatch ml r (b, rest, caps))))
           @ (if lo = 0 then [(b, rest, caps)] else []))"
| "rmatch ml (RGroup n r) (b, rest, caps) =
     map (\<lambda>s'. (fst s', fst (snd s'),
                 (n, take (length rest - length (fst (snd s'))) rest) # snd (snd s')))
       (rmatch ml r (b, rest, caps))"
| "rmatch ml RBol (b, rest, caps) =
     (if b = [] \<or> (ml \<and> isLineTerminator (hd b)) then [(b, rest, caps)] else [])"
| "rmatch ml REol (b, rest, caps) =
     (if rest = [] \<or> (ml \<and> isLineTerminator (hd rest)) then [(b, rest, caps)] else [])"
| "rmatch ml (RLookbehind r) (b, rest, caps) =
     (if list_ex (\<lambda>k. list_ex (\<lambda>s'. fst (snd s') = rest)
                         (rmatch ml r (drop k b, rev (take k b) @ rest, caps)))
           [0..<Suc (length b)]
      then [(b, rest, caps)] else [])"
  by pat_completeness auto
termination
  by (relation "measures [\<lambda>(ml, r, s). rsize r, \<lambda>(ml, r, s). length (fst (snd s))]") auto

fun number_groups :: "nat \<Rightarrow> regex \<Rightarrow> regex \<times> nat" where
  \<comment> \<open>capturing groups are numbered by their opening parenthesis, from the left\<close>
  "number_groups n (RSeq r1 r2) =
     (case number_groups n r1 of (r1', n1) \<Rightarrow>
        (case number_groups n1 r2 of (r2', n2) \<Rightarrow> (RSeq r1' r2', n2)))"
| "number_groups n (RAlt r1 r2) =
     (case number_groups n r1 of (r1', n1) \<Rightarrow>
        (case number_groups n1 r2 of (r2', n2) \<Rightarrow> (RAlt r1' r2', n2)))"
| "number_groups n (RRep lo hi r) =
     (case number_groups n r of (r', n1) \<Rightarrow> (RRep lo hi r', n1))"
| "number_groups n (RGroup k r) =
     (case number_groups (Suc n) r of (r', n1) \<Rightarrow> (RGroup n r', n1))"
| "number_groups n (RLookbehind r) =
     (case number_groups n r of (r', n1) \<Rightarrow> (RLookbehind r', n1))"
| "number_groups n r = (r, n)"

definition RegExp :: "regex \<Rightarrow> regex" where
  \<comment> \<open>\<open>new RegExp(src)\<close>: the groups of the source get their numbers\<close>
  "RegExp r = fst (number_groups 1 r)"

definition rseq :: "regex list \<Rightarrow> regex" where
  "rseq rs = foldr RSeq rs REmpty"

definition lit :: "string \<Rightarrow> regex" where
  "lit s = rseq (map (\<lambda>c. RSet (CChar c)) s)"

definition rstar :: "regex \<Rightarrow> regex" where "rstar r = RRep 0 None r"

definition rplus :: "regex \<Rightarrow> regex" where "rplus r = RRep 1 None r"

definition ropt :: "regex \<Rightarrow> regex" where "ropt r = RRep 0 (Some 1) r"

definition rcap :: "regex \<Rightarrow> regex" where "rcap r = RGroup 0 r"

fun search :: "bool \<Rightarrow> regex \<Rightarrow> string \<Rightarrow> string \<Rightarrow> (string \<times> mstate) option" where
  \<comment> \<open>the leftmost position with a match, and there the first match\<close>
  "search ml r b rest =
     (case rmatch ml r (b, rest, []) of
        m # ms \<Rightarrow> Some (b, m)
      | [] \<Rightarrow> (case rest of [] \<Rightarrow> None | x # xs \<Rightarrow> search ml r (x # b) xs))"

definition regex_exec :: "bool \<Rightarrow> regex \<Rightarrow> string \<Rightarrow> (string \<times> string \<times> string \<times> groups) option" where
  \<comment> \<open>\<open>s.match(r)\<close> for an expression without the flag \<open>g\<close>: the text before the match,
      the match, the text after it and the captures; \<open>None\<close> is \<open>null\<close>\<close>
  "regex_exec ml r s =
     (case search ml r [] s of
        None \<Rightarrow> None
      | Some (b, b', rest', caps) \<Rightarrow>
          Some (rev b, take (length b' - length b) (drop (length b) s), rest', caps))"

definition grp :: "groups \<Rightarrow> nat \<Rightarrow> string option" where
  \<comment> \<open>\<open>m[n]\<close>; \<open>None\<close> is \<open>undefined\<close>\<close>
  "grp caps n = map_of caps n"

definition grps :: "groups \<Rightarrow> nat \<Rightarrow> string" where
  \<comment> \<open>\<open>$n\<close> in a replacement string: a group that did not take part gives \<open>''''\<close>\<close>
  "grps caps n = (case map_of caps n of None \<Rightarrow> [] | Some s \<Rightarrow> s)"

definition replace_first :: "bool \<Rightarrow> regex \<Rightarrow> (string \<Rightarrow> groups \<Rightarrow> string) \<Rightarrow> string \<Rightarrow> string" where
  \<comment> \<open>\<open>s.replace(r, f)\<close> for an expression without the flag \<open>g\<close>\<close>
  "replace_first ml r f s =
     (case regex_exec ml r s of
        None \<Rightarrow> s
      | Some (pre, m0, post, caps) \<Rightarrow> pre @ f m0 caps @ post)"

function replace_from :: "bool \<Rightarrow> regex \<Rightarrow> (string \<Rightarrow> groups \<Rightarrow> string) \<Rightarrow> string \<Rightarrow> string \<Rightarrow> string" where
  "replace_from ml r f b rest =
     (case rmatch ml r (b, rest, []) of
        (b', rest', caps) # ms \<Rightarrow>
          if length rest' < length rest
          then f (take (length rest - length rest') rest) caps @ replace_from ml r f b' rest'
          else f [] caps @
               (case rest of [] \<Rightarrow> [] | x # xs \<Rightarrow> x # replace_from ml r f (x # b) xs)
      | [] \<Rightarrow> (case rest of [] \<Rightarrow> [] | x # xs \<Rightarrow> x # replace_from ml r f (x # b) xs))"
  by pat_completeness auto
termination
  by (relation "measure (\<lambda>(ml, r, f, b, rest). length rest)") auto

declare replace_from.simps [simp del]

definition replace_all :: "bool \<Rightarrow> regex \<Rightarrow> (string \<Rightarrow> groups \<Rightarrow> string) \<Rightarrow> string \<Rightarrow> string" where
  \<comment> \<open>\<open>s.replace(r, f)\<close> for an expression with the flag \<open>g\<close>: every match from the
      left, the next search starting where the last match ended (one character later
      after an empty match)\<close>
  "replace_all ml r f s = replace_from ml r f [] s"

section \<open>The platform: archive formats and request headers\<close>

text \<open>
  \<open>process.platform\<close>, \<open>path.extname\<close> and \<open>core.getInput\<close> belong to the runtime the
  action runs in; the functions below take them as arguments.
\<close>

definition getDownloadArchiveExtension :: "string \<Rightarrow> string" where
  \<comment> \<open>the argument is \<open>process.platform\<close>\<close>
  "getDownloadArchiveExtension platform = (if platform = ''win32'' then ''zip'' else ''tar.gz'')"

datatype tc_call = ExtractTar string | ExtractZip string | Extract7z string

definition archiveFormat :: "(string \<Rightarrow> string) \<Rightarrow> string \<Rightarrow> string option \<Rightarrow> string" where
  \<comment> \<open>line 34 to 36, the value of \<open>extension\<close> after \<open>||=\<close>: the argument is kept when it is
      truthy (given and not the empty string)\<close>
  "archiveFormat extname toolPath extension =
     (case extension of
        Some e \<Rightarrow>
          if e \<noteq> [] then e
          else if endsWith toolPath ''.tar.gz'' then ''tar.gz''
          else substring (extname toolPath) 1
      | None \<Rightarrow>
          if endsWith toolPath ''.tar.gz'' then ''tar.gz''
          else substring (extname toolPath) 1)"

definition extractJdkFile :: "(string \<Rightarrow> string) \<Rightarrow> string \<Rightarrow> string option \<Rightarrow> tc_call" where
  \<comment> \<open>the first argument is \<open>path.extname\<close>; the result is the call to
      \<open>@actions/tool-cache\<close> that the function awaits and returns\<close>
  "extractJdkFile extname toolPath extension =
     (let ext = archiveFormat extname toolPath extension
      in if ext = ''tar.gz'' \<or> ext = ''tar'' then ExtractTar toolPath
         else if ext = ''zip'' then ExtractZip toolPath
         else Extract7z toolPath)"

definition getGitHubHttpHeaders :: "(string \<Rightarrow> string) \<Rightarrow> (string \<rightharpoonup> string)" where
  \<comment> \<open>the argument is \<open>core.getInput\<close>\<close>
  "getGitHubHttpHeaders getInput =
     (let token = getInput ''token'';
          auth = (if token \<noteq> [] then Some (''token '' @ token) else None);
          headers = [''accept'' \<mapsto> ''application/vnd.github.VERSION.raw'']
      in case auth of
           Some a \<Rightarrow> if a \<noteq> [] then headers(''authorization'' \<mapsto> a) else headers
         | None \<Rightarrow> headers)"

section \<open>Versions with more than three components\<close>

datatype 'n version_input = VersionArray "'n list" | VersionString string

definition versionComponents :: "('n \<Rightarrow> string) \<Rightarrow> 'n version_input \<Rightarrow> string list" where
  \<comment> \<open>line 149, with the elements as \<open>join\<close> renders them. The type \<open>'n\<close> is the type of
      JavaScript numbers and the first argument is their conversion to a string, which
      \<open>join\<close> applies to the numbers of an array (it prints \<open>12\<close> as \<open>12\<close>, and
      \<open>1e21\<close> as \<open>1e+21\<close>); the parts of a string are strings already.\<close>
  "versionComponents Number_toString version =
     (case version of
        VersionArray ns \<Rightarrow> map Number_toString ns
      | VersionString s \<Rightarrow> split_chr CHR ''.'' s)"

definition convertVersionToSemver :: "('n \<Rightarrow> string) \<Rightarrow> 'n version_input \<Rightarrow> string" where
  "convertVersionToSemver Number_toString version =
     (let versionArray = versionComponents Number_toString version;
          mainVersion = join ''.'' (take 3 versionArray)
      in if length versionArray > 3
         then mainVersion @ ''+'' @ join ''.'' (drop 3 versionArray)
         else mainVersion)"

section \<open>The semver package: \<open>internal/re.js\<close> and \<open>internal/constants.js\<close>\<close>

text \<open>
  \<open>src/util.ts\<close> calls \<open>semver.valid\<close>, \<open>parse\<close>, \<open>compareBuild\<close>, \<open>satisfies\<close>,
  \<open>validRange\<close>, \<open>coerce\<close> and \<open>major\<close>, each without an options argument. The
  definitions of this section and the next two follow the package (version 7) with
  \<open>loose\<close> and \<open>includePrerelease\<close> false, and its expressions token by token. The
  classes match with the expressions of \<open>safeRe\<close>, which \<open>makeSafeRegex\<close> derives.
\<close>

definition MAX_LENGTH :: nat where "MAX_LENGTH = 256"

definition MAX_SAFE_INTEGER :: int where "MAX_SAFE_INTEGER = 9007199254740991"

definition MAX_SAFE_COMPONENT_LENGTH :: nat where "MAX_SAFE_COMPONENT_LENGTH = 16"

definition MAX_SAFE_BUILD_LENGTH :: nat where "MAX_SAFE_BUILD_LENGTH = MAX_LENGTH - 6"

definition LETTERDASHNUMBER :: charset where
  \<comment> \<open>\<open>[a-zA-Z0-9-]\<close>\<close>
  "LETTERDASHNUMBER =
     CUnion [CRange CHR ''a'' CHR ''z'', CRange CHR ''A'' CHR ''Z'',
             CRange CHR ''0'' CHR ''9'', CChar CHR ''-'']"

fun makeSafeRegex :: "regex \<Rightarrow> regex" where
  \<comment> \<open>\<open>\s*\<close>, \<open>\s+\<close>, \<open>\d*\<close>, \<open>\d+\<close> and \<open>[a-zA-Z0-9-]*\<close>, \<open>[a-zA-Z0-9-]+\<close> get an upper
      bound\<close>
  "makeSafeRegex (RRep lo None (RSet cs)) =
     (if cs = CSpace then RRep lo (Some 1) (RSet cs)
      else if cs = CDigit then RRep lo (Some MAX_LENGTH) (RSet cs)
      else if cs = LETTERDASHNUMBER then RRep lo (Some MAX_SAFE_BUILD_LENGTH) (RSet cs)
      else RRep lo None (RSet cs))"
| "makeSafeRegex (RRep lo hi r) = RRep lo hi (makeSafeRegex r)"
| "makeSafeRegex (RSeq r1 r2) = RSeq (makeSafeRegex r1) (makeSafeRegex r2)"
| "makeSafeRegex (RAlt r1 r2) = RAlt (makeSafeRegex r1) (makeSafeRegex r2)"
| "makeSafeRegex (RGroup n r) = RGroup n (makeSafeRegex r)"
| "makeSafeRegex (RLookbehind r) = RLookbehind (makeSafeRegex r)"
| "makeSafeRegex r = r"

definition safeRe :: "regex \<Rightarrow> regex" where
  "safeRe src = RegExp (makeSafeRegex src)"

definition ws_star :: regex where "ws_star = rstar (RSet CSpace)"

definition ws_plus :: regex where "ws_plus = rplus (RSet CSpace)"

definition NUMERICIDENTIFIER :: regex where
  \<comment> \<open>\<open>0|[1-9]\d*\<close>\<close>
  "NUMERICIDENTIFIER =
     RAlt (lit ''0'') (RSeq (RSet (CRange CHR ''1'' CHR ''9'')) (rstar (RSet CDigit)))"

definition NUMERICIDENTIFIERLOOSE :: regex where
  \<comment> \<open>\<open>\d+\<close>\<close>
  "NUMERICIDENTIFIERLOOSE = rplus (RSet CDigit)"

definition NONNUMERICIDENTIFIER :: regex where
  \<comment> \<open>\<open>\d*[a-zA-Z-][a-zA-Z0-9-]*\<close>\<close>
  "NONNUMERICIDENTIFIER =
     rseq [rstar (RSet CDigit),
           RSet (CUnion [CRange CHR ''a'' CHR ''z'', CRange CHR ''A'' CHR ''Z'', CChar CHR ''-'']),
           rstar (RSet LETTERDASHNUMBER)]"

definition MAINVERSION :: regex where
  "MAINVERSION =
     rseq [rcap NUMERICIDENTIFIER, lit ''.'', rcap NUMERICIDENTIFIER, lit ''.'',
           rcap NUMERICIDENTIFIER]"

definition MAINVERSIONLOOSE :: regex where
  "MAINVERSIONLOOSE =
     rseq [rcap NUMERICIDENTIFIERLOOSE, lit ''.'', rcap NUMERICIDENTIFIERLOOSE, lit ''.'',
           rcap NUMERICIDENTIFIERLOOSE]"

definition PRERELEASEIDENTIFIER :: regex where
  \<comment> \<open>\<open>(?:NONNUMERICIDENTIFIER|NUMERICIDENTIFIER)\<close>\<close>
  "PRERELEASEIDENTIFIER = RAlt NONNUMERICIDENTIFIER NUMERICIDENTIFIER"

definition PRERELEASEIDENTIFIERLOOSE :: regex where
  "PRERELEASEIDENTIFIERLOOSE = RAlt NONNUMERICIDENTIFIER NUMERICIDENTIFIERLOOSE"

definition PRERELEASE :: regex where
  \<comment> \<open>\<open>(?:-(PRERELEASEIDENTIFIER(?:\.PRERELEASEIDENTIFIER)*))\<close>\<close>
  "PRERELEASE =
     rseq [lit ''-'',
           rcap (rseq [PRERELEASEIDENTIFIER, rstar (rseq [lit ''.'', PRERELEASEIDENTIFIER])])]"

definition PRERELEASELOOSE :: regex where
  \<comment> \<open>\<open>(?:-?(PRERELEASEIDENTIFIERLOOSE(?:\.PRERELEASEIDENTIFIERLOOSE)*))\<close>\<close>
  "PRERELEASELOOSE =
     rseq [ropt (lit ''-''),
           rcap (rseq [PRERELEASEIDENTIFIERLOOSE,
                       rstar (rseq [lit ''.'', PRERELEASEIDENTIFIERLOOSE])])]"

definition BUILDIDENTIFIER :: regex where
  \<comment> \<open>\<open>[a-zA-Z0-9-]+\<close>\<close>
  "BUILDIDENTIFIER = rplus (RSet LETTERDASHNUMBER)"

definition BUILD :: regex where
  \<comment> \<open>\<open>(?:\+(BUILDIDENTIFIER(?:\.BUILDIDENTIFIER)*))\<close>\<close>
  "BUILD =
     rseq [lit ''+'', rcap (rseq [BUILDIDENTIFIER, rstar (rseq [lit ''.'', BUILDIDENTIFIER])])]"

definition FULLPLAIN :: regex where
  \<comment> \<open>\<open>v?MAINVERSION PRERELEASE? BUILD?\<close>\<close>
  "FULLPLAIN = rseq [ropt (lit ''v''), MAINVERSION, ropt PRERELEASE, ropt BUILD]"

definition FULL :: regex where
  "FULL = rseq [RBol, FULLPLAIN, REol]"

definition LOOSEPLAIN :: regex where
  \<comment> \<open>\<open>[v=\s]*MAINVERSIONLOOSE PRERELEASELOOSE? BUILD?\<close>\<close>
  "LOOSEPLAIN =
     rseq [rstar (RSet (CUnion [CChar CHR ''v'', CChar CHR ''='', CSpace])),
           MAINVERSIONLOOSE, ropt PRERELEASELOOSE, ropt BUILD]"

definition GTLT :: regex where
  \<comment> \<open>\<open>((?:<|>)?=?)\<close>\<close>
  "GTLT = rcap (rseq [ropt (RAlt (lit ''<'') (lit ''>'')), ropt (lit ''='')])"

definition XRANGEIDENTIFIER :: regex where
  \<comment> \<open>\<open>NUMERICIDENTIFIER|x|X|\*\<close>\<close>
  "XRANGEIDENTIFIER = RAlt NUMERICIDENTIFIER (RAlt (lit ''x'') (RAlt (lit ''X'') (lit ''*'')))"

definition XRANGEPLAIN :: regex where
  \<comment> \<open>\<open>[v=\s]*(XID)(?:\.(XID)(?:\.(XID)(?:PRERELEASE)?BUILD?)?)?\<close>\<close>
  "XRANGEPLAIN =
     rseq [rstar (RSet (CUnion [CChar CHR ''v'', CChar CHR ''='', CSpace])),
           rcap XRANGEIDENTIFIER,
           ropt (rseq [lit ''.'', rcap XRANGEIDENTIFIER,
                       ropt (rseq [lit ''.'', rcap XRANGEIDENTIFIER,
                                   ropt PRERELEASE, ropt BUILD])])]"

definition XRANGE :: regex where
  \<comment> \<open>\<open>^GTLT\s*XRANGEPLAIN$\<close>\<close>
  "XRANGE = rseq [RBol, GTLT, ws_star, XRANGEPLAIN, REol]"

definition COERCEPLAIN :: regex where
  \<comment> \<open>\<open>(^|[^\d])(\d{1,16})(?:\.(\d{1,16}))?(?:\.(\d{1,16}))?\<close>\<close>
  "COERCEPLAIN =
     rseq [rcap (RAlt RBol (RSet (CNot CDigit))),
           rcap (RRep 1 (Some MAX_SAFE_COMPONENT_LENGTH) (RSet CDigit)),
           ropt (rseq [lit ''.'', rcap (RRep 1 (Some MAX_SAFE_COMPONENT_LENGTH) (RSet CDigit))]),
           ropt (rseq [lit ''.'', rcap (RRep 1 (Some MAX_SAFE_COMPONENT_LENGTH) (RSet CDigit))])]"

definition COERCE :: regex where
  \<comment> \<open>\<open>COERCEPLAIN(?:$|[^\d])\<close>\<close>
  "COERCE = rseq [COERCEPLAIN, RAlt REol (RSet (CNot CDigit))]"

definition LONETILDE :: regex where
  \<comment> \<open>\<open>(?:~>?)\<close>\<close>
  "LONETILDE = rseq [lit ''~'', ropt (lit ''>'')]"

definition TILDETRIM :: regex where
  \<comment> \<open>\<open>(\s*)LONETILDE\s+\<close>, with the flag \<open>g\<close>\<close>
  "TILDETRIM = rseq [rcap ws_star, LONETILDE, ws_plus]"

definition TILDE :: regex where
  "TILDE = rseq [RBol, LONETILDE, XRANGEPLAIN, REol]"

definition LONECARET :: regex where
  "LONECARET = lit ''^''"

definition CARETTRIM :: regex where
  \<comment> \<open>\<open>(\s*)LONECARET\s+\<close>, with the flag \<open>g\<close>\<close>
  "CARETTRIM = rseq [rcap ws_star, LONECARET, ws_plus]"

definition CARET :: regex where
  "CARET = rseq [RBol, LONECARET, XRANGEPLAIN, REol]"

definition COMPARATOR :: regex where
  \<comment> \<open>\<open>^GTLT\s*(FULLPLAIN)$|^$\<close>\<close>
  "COMPARATOR =
     RAlt (rseq [RBol, GTLT, ws_star, rcap FULLPLAIN, REol]) (rseq [RBol, REol])"

definition COMPARATORTRIM :: regex where
  \<comment> \<open>\<open>(\s*)GTLT\s*(LOOSEPLAIN|XRANGEPLAIN)\<close>, with the flag \<open>g\<close>\<close>
  "COMPARATORTRIM = rseq [rcap ws_star, GTLT, ws_star, rcap (RAlt LOOSEPLAIN XRANGEPLAIN)]"

definition HYPHENRANGE :: regex where
  \<comment> \<open>\<open>^\s*(XRANGEPLAIN)\s+-\s+(XRANGEPLAIN)\s*$\<close>\<close>
  "HYPHENRANGE =
     rseq [RBol, ws_star, rcap XRANGEPLAIN, ws_plus, lit ''-'', ws_plus, rcap XRANGEPLAIN,
           ws_star, REol]"

definition STAR :: regex where
  \<comment> \<open>\<open>(<|>)?=?\s*\*\<close>\<close>
  "STAR = rseq [ropt (rcap (RAlt (lit ''<'') (lit ''>''))), ropt (lit ''=''), ws_star, lit ''*'']"

definition GTE0 :: regex where
  \<comment> \<open>\<open>^\s*>=\s*0\.0\.0\s*$\<close>\<close>
  "GTE0 = rseq [RBol, ws_star, lit ''>='', ws_star, lit ''0.0.0'', ws_star, REol]"

section \<open>The semver package: \<open>classes/semver.js\<close> and the functions on versions\<close>

datatype js_id = Num int | Str string

record SemVer =
  sv_major :: int
  sv_minor :: int
  sv_patch :: int
  sv_prerelease :: "js_id list"
  sv_build :: "string list"
  sv_version :: string

definition numeric :: "string \<Rightarrow> bool" where
  \<comment> \<open>\<open>/^[0-9]+$/.test(s)\<close>\<close>
  "numeric s = (s \<noteq> [] \<and> list_all isDigit s)"

definition id_toString :: "js_id \<Rightarrow> string" where
  "id_toString a = (case a of Num n \<Rightarrow> number_toString n | Str s \<Rightarrow> s)"

definition numberify :: "string \<Rightarrow> js_id" where
  \<comment> \<open>the constructor turns a numeric prerelease identifier below
      \<open>MAX_SAFE_INTEGER\<close> into a number\<close>
  "numberify i =
     (if numeric i \<and> toNumber i < MAX_SAFE_INTEGER then Num (toNumber i) else Str i)"

definition format :: "int \<Rightarrow> int \<Rightarrow> int \<Rightarrow> js_id list \<Rightarrow> string" where
  \<comment> \<open>\<open>SemVer.format\<close>: the field \<open>version\<close>, which leaves the build out\<close>
  "format M m p pre =
     (let v = number_toString M @ ''.'' @ number_toString m @ ''.'' @ number_toString p
      in if pre \<noteq> [] then v @ ''-'' @ join ''.'' (map id_toString pre) else v)"

definition SemVer_new :: "string \<Rightarrow> js_error + SemVer" where
  \<comment> \<open>\<open>new SemVer(version)\<close> on a string. A component above \<open>MAX_SAFE_INTEGER\<close> is
      refused; rounding to a double does not change that comparison, since
      \<open>MAX_SAFE_INTEGER + 1\<close> is a double.\<close>
  "SemVer_new v =
     (if length v > MAX_LENGTH then Inl TypeError
      else case regex_exec False (safeRe FULL) (trim v) of
        None \<Rightarrow> Inl TypeError
      | Some (pre, m0, post, m) \<Rightarrow>
          let M = toNumber (grps m 1);
              mi = toNumber (grps m 2);
              p = toNumber (grps m 3)
          in if M > MAX_SAFE_INTEGER then Inl TypeError
             else if mi > MAX_SAFE_INTEGER then Inl TypeError
             else if p > MAX_SAFE_INTEGER then Inl TypeError
             else
               let prerelease = (if \<not> truthy (grp m 4) then []
                                 else map numberify (split_chr CHR ''.'' (grps m 4)));
                   build = (if truthy (grp m 5) then split_chr CHR ''.'' (grps m 5) else [])
               in Inr \<lparr>sv_major = M, sv_minor = mi, sv_patch = p,
                        sv_prerelease = prerelease, sv_build = build,
                        sv_version = format M mi p prerelease\<rparr>)"

definition compareIdentifiers :: "js_id \<Rightarrow> js_id \<Rightarrow> int" where
  \<comment> \<open>\<open>internal/identifiers.js\<close>: two numeric identifiers are compared as numbers\<close>
  "compareIdentifiers a b =
     (let anum = numeric (id_toString a);
          bnum = numeric (id_toString b)
      in if anum \<and> bnum
         then (let x = toNumber (id_toString a); y = toNumber (id_toString b)
               in if x = y then 0 else if x < y then - 1 else 1)
         else if a = b then 0
         else if anum \<and> \<not> bnum then - 1
         else if bnum \<and> \<not> anum then 1
         else if string_less (id_toString a) (id_toString b) then - 1
         else 1)"

definition compareMain :: "SemVer \<Rightarrow> SemVer \<Rightarrow> int" where
  "compareMain this other =
     (let c1 = compareIdentifiers (Num (sv_major this)) (Num (sv_major other))
      in if c1 \<noteq> 0 then c1
         else let c2 = compareIdentifiers (Num (sv_minor this)) (Num (sv_minor other))
              in if c2 \<noteq> 0 then c2
                 else compareIdentifiers (Num (sv_patch this)) (Num (sv_patch other)))"

fun compareLoop :: "js_id list \<Rightarrow> js_id list \<Rightarrow> int" where
  \<comment> \<open>the \<open>do ... while (++i)\<close> loop of \<open>comparePre\<close> and of \<open>compareBuild\<close>: it stops
      at the first index where the two identifiers are not identical\<close>
  "compareLoop [] [] = 0"
| "compareLoop (a # as) [] = 1"
| "compareLoop [] (b # bs) = - 1"
| "compareLoop (a # as) (b # bs) = (if a = b then compareLoop as bs else compareIdentifiers a b)"

definition comparePre :: "SemVer \<Rightarrow> SemVer \<Rightarrow> int" where
  "comparePre this other =
     (if sv_prerelease this \<noteq> [] \<and> sv_prerelease other = [] then - 1
      else if sv_prerelease this = [] \<and> sv_prerelease other \<noteq> [] then 1
      else if sv_prerelease this = [] \<and> sv_prerelease other = [] then 0
      else compareLoop (sv_prerelease this) (sv_prerelease other))"

definition SemVer_compare :: "SemVer \<Rightarrow> SemVer \<Rightarrow> int" where
  "SemVer_compare this other =
     (if sv_version other = sv_version this then 0
      else let c = compareMain this other in if c \<noteq> 0 then c else comparePre this other)"

definition SemVer_compareBuild :: "SemVer \<Rightarrow> SemVer \<Rightarrow> int" where
  "SemVer_compareBuild this other =
     compareLoop (map Str (sv_build this)) (map Str (sv_build other))"

definition semver_parse :: "string \<Rightarrow> SemVer option" where
  \<comment> \<open>\<open>functions/parse.js\<close>: \<open>null\<close> where the constructor throws\<close>
  "semver_parse v = (case SemVer_new v of Inl e \<Rightarrow> None | Inr sv \<Rightarrow> Some sv)"

definition semver_valid :: "string \<Rightarrow> string option" where
  "semver_valid v = (case semver_parse v of None \<Rightarrow> None | Some sv \<Rightarrow> Some (sv_version sv))"

definition semver_compareBuild :: "string \<Rightarrow> string \<Rightarrow> js_error + int" where
  \<comment> \<open>\<open>functions/compare-build.js\<close>; \<open>x || y\<close> is \<open>y\<close> where \<open>x\<close> is 0\<close>
  "semver_compareBuild a b =
     (case SemVer_new a of
        Inl e \<Rightarrow> Inl e
      | Inr versionA \<Rightarrow>
          (case SemVer_new b of
             Inl e \<Rightarrow> Inl e
           | Inr versionB \<Rightarrow>
               let c = SemVer_compare versionA versionB
               in Inr (if c \<noteq> 0 then c else SemVer_compareBuild versionA versionB)))"

datatype version_value = VString string | VSemVer SemVer

definition semver_major :: "version_value \<Rightarrow> js_error + int" where
  \<comment> \<open>\<open>functions/major.js\<close>: \<open>new SemVer(a).major\<close>; the constructor returns a
      \<open>SemVer\<close> it is given\<close>
  "semver_major a =
     (case a of
        VSemVer sv \<Rightarrow> Inr (sv_major sv)
      | VString s \<Rightarrow> (case SemVer_new s of Inl e \<Rightarrow> Inl e | Inr sv \<Rightarrow> Inr (sv_major sv)))"

definition semver_coerce :: "version_value \<Rightarrow> SemVer option" where
  \<comment> \<open>\<open>functions/coerce.js\<close> without options\<close>
  "semver_coerce a =
     (case a of
        VSemVer sv \<Rightarrow> Some sv
      | VString s \<Rightarrow>
          (case regex_exec False (safeRe COERCE) s of
             None \<Rightarrow> None
           | Some (pre, m0, post, m) \<Rightarrow>
               let major = grps m 2;
                   minor = (if truthy (grp m 3) then grps m 3 else ''0'');
                   patch = (if truthy (grp m 4) then grps m 4 else ''0'')
               in semver_parse (major @ ''.'' @ minor @ ''.'' @ patch)))"

section \<open>The semver package: \<open>classes/comparator.js\<close> and \<open>classes/range.js\<close>\<close>

record Comparator =
  c_operator :: string
  c_semver :: "SemVer option"
  c_value :: string

text \<open>\<open>c_semver = None\<close> is the comparator \<open>ANY\<close>.\<close>

definition Comparator_new :: "string \<Rightarrow> js_error + Comparator" where
  "Comparator_new comp0 =
     (let cstr = join '' '' (split_spaces (trim comp0))
      in case regex_exec False (safeRe COMPARATOR) cstr of
           None \<Rightarrow> Inl TypeError
         | Some (pre, m0, post, m) \<Rightarrow>
             let op1 = (case grp m 1 of None \<Rightarrow> [] | Some s \<Rightarrow> s);
                 operator = (if op1 = ''='' then [] else op1)
             in if \<not> truthy (grp m 2)
                then Inr \<lparr>c_operator = operator, c_semver = None, c_value = []\<rparr>
                else (case SemVer_new (grps m 2) of
                        Inl e \<Rightarrow> Inl e
                      | Inr sv \<Rightarrow>
                          Inr \<lparr>c_operator = operator, c_semver = Some sv,
                               c_value = operator @ sv_version sv\<rparr>))"

definition cmp :: "SemVer \<Rightarrow> string \<Rightarrow> SemVer \<Rightarrow> js_error + bool" where
  \<comment> \<open>\<open>functions/cmp.js\<close>\<close>
  "cmp a op b =
     (if op = ''==='' then Inr (sv_version a = sv_version b)
      else if op = ''!=='' then Inr (sv_version a \<noteq> sv_version b)
      else if op = [] \<or> op = ''='' \<or> op = ''=='' then Inr (SemVer_compare a b = 0)
      else if op = ''!='' then Inr (SemVer_compare a b \<noteq> 0)
      else if op = ''>'' then Inr (SemVer_compare a b > 0)
      else if op = ''>='' then Inr (SemVer_compare a b \<ge> 0)
      else if op = ''<'' then Inr (SemVer_compare a b < 0)
      else if op = ''<='' then Inr (SemVer_compare a b \<le> 0)
      else Inl TypeError)"

definition Comparator_test :: "Comparator \<Rightarrow> SemVer \<Rightarrow> js_error + bool" where
  "Comparator_test c v =
     (case c_semver c of
        None \<Rightarrow> Inr True
      | Some sv \<Rightarrow> cmp v (c_operator c) sv)"

definition isNullSet :: "Comparator \<Rightarrow> bool" where
  "isNullSet c = (c_value c = ''<0.0.0-0'')"

definition isAny :: "Comparator \<Rightarrow> bool" where
  "isAny c = (c_value c = [])"

definition isX :: "string option \<Rightarrow> bool" where
  \<comment> \<open>\<open>!id || id.toLowerCase() === 'x' || id === '*'\<close>\<close>
  "isX i = (case i of None \<Rightarrow> True | Some s \<Rightarrow> s = [] \<or> s = ''x'' \<or> s = ''X'' \<or> s = ''*'')"

definition inc :: "string \<Rightarrow> string" where
  \<comment> \<open>\<open>`${+M + 1}`\<close>\<close>
  "inc M = number_toString (round_double (toNumber M + 1))"

definition replaceTilde :: "string \<Rightarrow> string" where
  "replaceTilde cstr =
     replace_first False (safeRe TILDE)
       (\<lambda>m0 g.
          let M = grp g 1; m = grp g 2; p = grp g 3; pr = grp g 4
          in if isX M then []
             else if isX m then ''>='' @ the M @ ''.0.0 <'' @ inc (the M) @ ''.0.0-0''
             else if isX p
             then ''>='' @ the M @ ''.'' @ the m @ ''.0 <'' @ the M @ ''.'' @ inc (the m) @ ''.0-0''
             else if truthy pr
             then ''>='' @ the M @ ''.'' @ the m @ ''.'' @ the p @ ''-'' @ the pr @
                  '' <'' @ the M @ ''.'' @ inc (the m) @ ''.0-0''
             else ''>='' @ the M @ ''.'' @ the m @ ''.'' @ the p @
                  '' <'' @ the M @ ''.'' @ inc (the m) @ ''.0-0'')
       cstr"

definition replaceTildes :: "string \<Rightarrow> string" where
  "replaceTildes cstr = join '' '' (map replaceTilde (split_spaces (trim cstr)))"

definition replaceCaret :: "string \<Rightarrow> string" where
  "replaceCaret cstr =
     replace_first False (safeRe CARET)
       (\<lambda>m0 g.
          let M = grp g 1; m = grp g 2; p = grp g 3; pr = grp g 4
          in if isX M then []
             else if isX m then ''>='' @ the M @ ''.0.0 <'' @ inc (the M) @ ''.0.0-0''
             else if isX p
             then (if the M = ''0''
                   then ''>='' @ the M @ ''.'' @ the m @ ''.0 <'' @ the M @ ''.'' @ inc (the m) @ ''.0-0''
                   else ''>='' @ the M @ ''.'' @ the m @ ''.0 <'' @ inc (the M) @ ''.0.0-0'')
             else if truthy pr
             then (if the M = ''0''
                   then (if the m = ''0''
                         then ''>='' @ the M @ ''.'' @ the m @ ''.'' @ the p @ ''-'' @ the pr @
                              '' <'' @ the M @ ''.'' @ the m @ ''.'' @ inc (the p) @ ''-0''
                         else ''>='' @ the M @ ''.'' @ the m @ ''.'' @ the p @ ''-'' @ the pr @
                              '' <'' @ the M @ ''.'' @ inc (the m) @ ''.0-0'')
                   else ''>='' @ the M @ ''.'' @ the m @ ''.'' @ the p @ ''-'' @ the pr @
                        '' <'' @ inc (the M) @ ''.0.0-0'')
             else (if the M = ''0''
                   then (if the m = ''0''
                         then ''>='' @ the M @ ''.'' @ the m @ ''.'' @ the p @
                              '' <'' @ the M @ ''.'' @ the m @ ''.'' @ inc (the p) @ ''-0''
                         else ''>='' @ the M @ ''.'' @ the m @ ''.'' @ the p @
                              '' <'' @ the M @ ''.'' @ inc (the m) @ ''.0-0'')
                   else ''>='' @ the M @ ''.'' @ the m @ ''.'' @ the p @
                        '' <'' @ inc (the M) @ ''.0.0-0''))
       cstr"

definition replaceCarets :: "string \<Rightarrow> string" where
  "replaceCarets cstr = join '' '' (map replaceCaret (split_spaces (trim cstr)))"

definition replaceXRange :: "string \<Rightarrow> string" where
  "replaceXRange cstr =
     replace_first False (safeRe XRANGE)
       (\<lambda>ret g.
          let gtlt0 = grps g 1; M = grp g 2; m = grp g 3; p = grp g 4;
              xM = isX M; xm = (xM \<or> isX m); xp = (xm \<or> isX p); anyX = xp;
              gtlt = (if gtlt0 = ''='' \<and> anyX then [] else gtlt0)
          in if xM then (if gtlt = ''>'' \<or> gtlt = ''<'' then ''<0.0.0-0'' else ''*'')
             else if gtlt \<noteq> [] \<and> anyX
             then (let m1 = (if xm then ''0'' else the m)
                   in if gtlt = ''>''
                      then (if xm then ''>='' @ inc (the M) @ ''.0.0''
                            else ''>='' @ the M @ ''.'' @ inc m1 @ ''.0'')
                      else if gtlt = ''<=''
                      then (if xm then ''<'' @ inc (the M) @ ''.'' @ m1 @ ''.0-0''
                            else ''<'' @ the M @ ''.'' @ inc m1 @ ''.0-0'')
                      else if gtlt = ''<'' then ''<'' @ the M @ ''.'' @ m1 @ ''.0-0''
                      else gtlt @ the M @ ''.'' @ m1 @ ''.0'')
             else if xm then ''>='' @ the M @ ''.0.0 <'' @ inc (the M) @ ''.0.0-0''
             else if xp
             then ''>='' @ the M @ ''.'' @ the m @ ''.0 <'' @ the M @ ''.'' @ inc (the m) @ ''.0-0''
             else ret)
       (trim cstr)"

definition replaceXRanges :: "string \<Rightarrow> string" where
  "replaceXRanges cstr = join '' '' (map replaceXRange (split_spaces cstr))"

definition replaceStars :: "string \<Rightarrow> string" where
  "replaceStars cstr = replace_first False (safeRe STAR) (\<lambda>m0 g. []) (trim cstr)"

definition replaceGTE0 :: "string \<Rightarrow> string" where
  "replaceGTE0 cstr = replace_first False (safeRe GTE0) (\<lambda>m0 g. []) (trim cstr)"

definition parseComparator :: "string \<Rightarrow> string" where
  "parseComparator cstr = replaceStars (replaceXRanges (replaceTildes (replaceCarets cstr)))"

definition hyphenReplace :: "string \<Rightarrow> groups \<Rightarrow> string" where
  \<comment> \<open>\<open>hyphenReplace(false)\<close>; the groups are \<open>from, fM, fm, fp, fpr, fb, to, tM, tm, tp,
      tpr\<close>\<close>
  "hyphenReplace m0 g =
     (let from0 = grps g 1; fM = grp g 2; fm = grp g 3; fp = grp g 4;
          to0 = grps g 7; tM = grp g 8; tm = grp g 9; tp = grp g 10; tpr = grp g 11;
          from = (if isX fM then []
                  else if isX fm then ''>='' @ the fM @ ''.0.0''
                  else if isX fp then ''>='' @ the fM @ ''.'' @ the fm @ ''.0''
                  else ''>='' @ from0);
          to = (if isX tM then []
                else if isX tm then ''<'' @ inc (the tM) @ ''.0.0-0''
                else if isX tp then ''<'' @ the tM @ ''.'' @ inc (the tm) @ ''.0-0''
                else if truthy tpr
                then ''<='' @ the tM @ ''.'' @ the tm @ ''.'' @ the tp @ ''-'' @ the tpr
                else ''<='' @ to0)
      in trim (from @ '' '' @ to))"

fun rangeMap_set :: "(string \<times> Comparator) list \<Rightarrow> string \<Rightarrow> Comparator \<Rightarrow> (string \<times> Comparator) list" where
  \<comment> \<open>\<open>Map.prototype.set\<close>: a key that is present keeps its place\<close>
  "rangeMap_set [] k v = [(k, v)]"
| "rangeMap_set ((k', v') # kvs) k v =
     (if k' = k then (k, v) # kvs else (k', v') # rangeMap_set kvs k v)"

fun rangeMap_fill :: "(string \<times> Comparator) list \<Rightarrow> Comparator list \<Rightarrow> Comparator list + (string \<times> Comparator) list" where
  \<comment> \<open>the loop over the comparators in \<open>parseRange\<close>; \<open>Inl [comp]\<close> is its early
      return at a null set\<close>
  "rangeMap_fill rangeMap [] = Inr rangeMap"
| "rangeMap_fill rangeMap (cstr # comps) =
     (if isNullSet cstr then Inl [cstr]
      else rangeMap_fill (rangeMap_set rangeMap (c_value cstr) cstr) comps)"

definition parseRange :: "string \<Rightarrow> js_error + Comparator list" where
  \<comment> \<open>\<open>Range.parseRange\<close>; its cache only saves recomputation\<close>
  "parseRange range0 =
     (let range1 = replace_first False (safeRe HYPHENRANGE) hyphenReplace range0;
          range2 = replace_all False (safeRe COMPARATORTRIM)
                     (\<lambda>m0 g. grps g 1 @ grps g 2 @ grps g 3) range1;
          range3 = replace_all False (safeRe TILDETRIM) (\<lambda>m0 g. grps g 1 @ ''~'') range2;
          range4 = replace_all False (safeRe CARETTRIM) (\<lambda>m0 g. grps g 1 @ ''^'') range3;
          rangeList = map replaceGTE0
                        (split_spaces (join '' '' (map parseComparator (split_chr CHR '' '' range4))))
      in case mapM Comparator_new rangeList of
           Inl e \<Rightarrow> Inl e
         | Inr comparators \<Rightarrow>
             (case rangeMap_fill [] comparators of
                Inl r \<Rightarrow> Inr r
              | Inr rangeMap \<Rightarrow>
                  Inr (map snd (if length rangeMap > 1 \<and> [] \<in> set (map fst rangeMap)
                                then filter (\<lambda>kv. fst kv \<noteq> []) rangeMap
                                else rangeMap))))"

definition parseTrimmed :: "string \<Rightarrow> js_error + Comparator list" where
  \<comment> \<open>\<open>r => this.parseRange(r.trim())\<close>\<close>
  "parseTrimmed r = parseRange (trim r)"

record Range =
  r_raw :: string
  r_set :: "Comparator list list"

definition first_isNullSet :: "Comparator list \<Rightarrow> bool" where
  \<comment> \<open>\<open>isNullSet(c[0])\<close>; the empty lists were filtered out before\<close>
  "first_isNullSet c = (case c of [] \<Rightarrow> False | x # xs \<Rightarrow> isNullSet x)"

definition Range_new :: "string \<Rightarrow> js_error + Range" where
  \<comment> \<open>\<open>new Range(range)\<close> on a string\<close>
  "Range_new range0 =
     (let raw = collapse_spaces (trim range0)
      in case mapM parseTrimmed (split_bars raw) of
           Inl e \<Rightarrow> Inl e
         | Inr sets \<Rightarrow>
             let set0 = filter (\<lambda>c. c \<noteq> []) sets
             in if set0 = [] then Inl TypeError
                else if length set0 > 1
                then (let first = hd set0;
                          set1 = filter (\<lambda>c. \<not> first_isNullSet c) set0
                      in if set1 = [] then Inr \<lparr>r_raw = raw, r_set = [first]\<rparr>
                         else if length set1 > 1
                         then (case find (\<lambda>c. length c = 1 \<and> isAny (hd c)) set1 of
                                 Some c \<Rightarrow> Inr \<lparr>r_raw = raw, r_set = [c]\<rparr>
                               | None \<Rightarrow> Inr \<lparr>r_raw = raw, r_set = set1\<rparr>)
                         else Inr \<lparr>r_raw = raw, r_set = set1\<rparr>)
                else Inr \<lparr>r_raw = raw, r_set = set0\<rparr>)"

definition Range_range :: "Range \<Rightarrow> string" where
  \<comment> \<open>the getter \<open>range\<close>\<close>
  "Range_range r = join ''||'' (map (\<lambda>comps. join '' '' (map (\<lambda>c. trim (c_value c)) comps)) (r_set r))"

fun testAll :: "Comparator list \<Rightarrow> SemVer \<Rightarrow> js_error + bool" where
  \<comment> \<open>the first loop of \<open>testSet\<close>\<close>
  "testAll [] v = Inr True"
| "testAll (c # cs) v =
     (case Comparator_test c v of
        Inl e \<Rightarrow> Inl e
      | Inr ok \<Rightarrow> if ok then testAll cs v else Inr False)"

definition allowsPrerelease :: "SemVer \<Rightarrow> Comparator \<Rightarrow> bool" where
  \<comment> \<open>the body of the second loop of \<open>testSet\<close>\<close>
  "allowsPrerelease v c =
     (case c_semver c of
        None \<Rightarrow> False
      | Some allowed \<Rightarrow>
          sv_prerelease allowed \<noteq> [] \<and> sv_major allowed = sv_major v \<and>
          sv_minor allowed = sv_minor v \<and> sv_patch allowed = sv_patch v)"

definition testSet :: "Comparator list \<Rightarrow> SemVer \<Rightarrow> js_error + bool" where
  "testSet cs v =
     (case testAll cs v of
        Inl e \<Rightarrow> Inl e
      | Inr ok \<Rightarrow>
          if \<not> ok then Inr False
          else if sv_prerelease v \<noteq> [] then Inr (list_ex (allowsPrerelease v) cs)
          else Inr True)"

fun testSets :: "Comparator list list \<Rightarrow> SemVer \<Rightarrow> js_error + bool" where
  "testSets [] v = Inr False"
| "testSets (cs # css) v =
     (case testSet cs v of
        Inl e \<Rightarrow> Inl e
      | Inr ok \<Rightarrow> if ok then Inr True else testSets css v)"

definition Range_test :: "Range \<Rightarrow> string \<Rightarrow> js_error + bool" where
  "Range_test r v =
     (if v = [] then Inr False
      else case SemVer_new v of
             Inl e \<Rightarrow> Inr False
           | Inr sv \<Rightarrow> testSets (r_set r) sv)"

definition semver_satisfies :: "string \<Rightarrow> string \<Rightarrow> js_error + bool" where
  \<comment> \<open>\<open>functions/satisfies.js\<close>: \<open>satisfies(version, range)\<close>\<close>
  "semver_satisfies v range0 =
     (case Range_new range0 of
        Inl e \<Rightarrow> Inr False
      | Inr r \<Rightarrow> Range_test r v)"

definition semver_validRange :: "string \<Rightarrow> string option" where
  \<comment> \<open>\<open>ranges/valid.js\<close>: \<open>new Range(range).range || '*'\<close>, or \<open>null\<close>\<close>
  "semver_validRange range0 =
     (case Range_new range0 of
        Inl e \<Rightarrow> None
      | Inr r \<Rightarrow> Some (if Range_range r = [] then ''*'' else Range_range r))"

section \<open>\<open>src/util.ts\<close>: matching a version against a range\<close>

definition isVersionSatisfies :: "string \<Rightarrow> string \<Rightarrow> js_error + bool" where
  \<comment> \<open>\<open>Inl\<close> is the exception that \<open>semver.compareBuild\<close> throws and the function
      does not catch\<close>
  "isVersionSatisfies range0 version =
     (case (if truthy (semver_valid range0) then semver_parse range0 else None) of
        Some semRange \<Rightarrow>
          if length (sv_build semRange) > 0
          then (case semver_compareBuild range0 version of
                  Inl e \<Rightarrow> Inl e
                | Inr c \<Rightarrow> Inr (c = 0))
          else semver_satisfies version range0
      | None \<Rightarrow> semver_satisfies version range0)"

section \<open>\<open>src/util.ts\<close>: the version of a version file\<close>

definition toolVersionsRegExp :: regex where
  \<comment> \<open>\<open>/^(java\s+)(?:\S*-)?v?(?<version>(\d+)(\.\d+)?(\.\d+)?(\+\d+)?(-ea(\.\d+)?)?)$/m\<close>;
      the group \<open>version\<close> is group 2\<close>
  "toolVersionsRegExp =
     RegExp (rseq [RBol,
                   rcap (rseq [lit ''java'', rplus (RSet CSpace)]),
                   ropt (rseq [rstar (RSet (CNot CSpace)), lit ''-'']),
                   ropt (lit ''v''),
                   rcap (rseq [rcap (rplus (RSet CDigit)),
                               ropt (rcap (rseq [lit ''.'', rplus (RSet CDigit)])),
                               ropt (rcap (rseq [lit ''.'', rplus (RSet CDigit)])),
                               ropt (rcap (rseq [lit ''+'', rplus (RSet CDigit)])),
                               ropt (rcap (rseq [lit ''-ea'',
                                                 ropt (rcap (rseq [lit ''.'', rplus (RSet CDigit)]))]))]),
                   REol])"

definition plainVersionRegExp :: regex where
  \<comment> \<open>\<open>/(?<version>(?<=(^|\s|-))(\d+\S*))(\s|$)/\<close>; the group \<open>version\<close> is group 1\<close>
  "plainVersionRegExp =
     RegExp (rseq [rcap (rseq [RLookbehind (rcap (RAlt RBol (RAlt (RSet CSpace) (lit ''-'')))),
                               rcap (rseq [rplus (RSet CDigit), rstar (RSet (CNot CSpace))])]),
                   rcap (RAlt (RSet CSpace) REol)])"

definition versionFromFile :: "(string \<Rightarrow> string) \<Rightarrow> string \<Rightarrow> string \<Rightarrow> string" where
  \<comment> \<open>line 109 to 117, the value of \<open>fileContent\<close>; the first argument is
      \<open>path.basename\<close>\<close>
  "versionFromFile basename content versionFile =
     (let versionFileName = basename versionFile;
          m = (if versionFileName = ''.tool-versions''
               then map_option (\<lambda>r. grp (snd (snd (snd r))) 2)
                      (regex_exec True toolVersionsRegExp content)
               else map_option (\<lambda>r. grp (snd (snd (snd r))) 1)
                      (regex_exec False plainVersionRegExp content))
      in case m of
           Some (Some v) \<Rightarrow> v
         | _ \<Rightarrow> [])"

definition avoidOldNotation :: "string \<Rightarrow> string" where
  "avoidOldNotation content = (if startsWith content ''1.'' then substring content 2 else content)"

definition rangeVersion :: "string \<Rightarrow> version_value option" where
  \<comment> \<open>line 124 to 129, the value of \<open>version\<close> for the text \<open>fileContent\<close>; \<open>None\<close>
      is \<open>null\<close>\<close>
  "rangeVersion fileContent =
     (let tentativeVersion = avoidOldNotation fileContent;
          rawVersion = hd (split_chr CHR ''-'' tentativeVersion)
      in if truthy (semver_validRange rawVersion)
         then Some (VString tentativeVersion)
         else map_option VSemVer (semver_coerce (VString tentativeVersion)))"

definition version_toString :: "version_value \<Rightarrow> string" where
  "version_toString v = (case v of VString s \<Rightarrow> s | VSemVer sv \<Rightarrow> sv_version sv)"

definition version_truthy :: "version_value option \<Rightarrow> bool" where
  "version_truthy v = (case v of None \<Rightarrow> False | Some (VString s) \<Rightarrow> s \<noteq> [] | Some (VSemVer sv) \<Rightarrow> True)"

definition getVersionFromFileContent ::
  "(string \<Rightarrow> string) \<Rightarrow> string list \<Rightarrow> string \<Rightarrow> string \<Rightarrow> string \<Rightarrow> js_error + string option" where
  \<comment> \<open>the first two arguments are \<open>path.basename\<close> and the constant
      \<open>DISTRIBUTIONS_ONLY_MAJOR_VERSION\<close> of \<open>./constants\<close>. \<open>Inr None\<close> is the result
      \<open>null\<close>; \<open>Inl\<close> is the exception that \<open>semver.major\<close> throws and the function does
      not catch. The two calls of \<open>core.debug\<close> only log.\<close>
  "getVersionFromFileContent basename DISTRIBUTIONS_ONLY_MAJOR_VERSION content distributionName versionFile =
     (let fileContent = versionFromFile basename content versionFile
      in if fileContent = [] then Inr None
         else
           let version = rangeVersion fileContent
           in if \<not> version_truthy version then Inr None
              else if distributionName \<in> set DISTRIBUTIONS_ONLY_MAJOR_VERSION
              then (let coerceVersion = (case semver_coerce (the version) of
                                           Some sv \<Rightarrow> VSemVer sv
                                         | None \<Rightarrow> the version)
                    in case semver_major coerceVersion of
                         Inl e \<Rightarrow> Inl e
                       | Inr n \<Rightarrow> Inr (Some (number_toString n)))
              else Inr (Some (version_toString (the version))))"

section \<open>Properties\<close>

subsection \<open>Evaluations\<close>

text \<open>
  The values of the package functions on the strings the properties below use, each
  computed from the definitions.
\<close>

lemma SemVer_new_1_2_3_build_4:
  "SemVer_new ''1.2.3+4'' =
     Inr \<lparr>sv_major = 1, sv_minor = 2, sv_patch = 3, sv_prerelease = [],
          sv_build = [''4''], sv_version = ''1.2.3''\<rparr>"
  by code_simp

lemma SemVer_new_1_2_3_build_04_5:
  "SemVer_new ''1.2.3+04.5'' =
     Inr \<lparr>sv_major = 1, sv_minor = 2, sv_patch = 3, sv_prerelease = [],
          sv_build = [''04'', ''5''], sv_version = ''1.2.3''\<rparr>"
  by code_simp

lemma SemVer_new_1_2_3_build_4_6:
  "SemVer_new ''1.2.3+4.6'' =
     Inr \<lparr>sv_major = 1, sv_minor = 2, sv_patch = 3, sv_prerelease = [],
          sv_build = [''4'', ''6''], sv_version = ''1.2.3''\<rparr>"
  by code_simp

lemma SemVer_new_1_2_3_build_04_7:
  "SemVer_new ''1.2.3+04.7'' =
     Inr \<lparr>sv_major = 1, sv_minor = 2, sv_patch = 3, sv_prerelease = [],
          sv_build = [''04'', ''7''], sv_version = ''1.2.3''\<rparr>"
  by code_simp

lemma satisfies_invalid_version: "semver_satisfies ''1.2'' ''1.2.3+4'' = Inr False"
  by code_simp

lemma SemVer_new_star: "SemVer_new ''*'' = Inl TypeError"
  by code_simp

lemma validRange_star: "semver_validRange ''*'' = Some ''*''"
  by code_simp

lemma coerce_star: "semver_coerce (VString ''*'') = None"
  by code_simp

lemma plain_1_star: "map_option (\<lambda>r. grp (snd (snd (snd r))) 1) (regex_exec False plainVersionRegExp ''1.*'') = Some (Some ''1.*'')"
  by code_simp

lemma SemVer_new_caret: "SemVer_new ''^1.2.0'' = Inl TypeError"
  by code_simp

lemma SemVer_new_x: "SemVer_new ''x'' = Inl TypeError"
  by code_simp

lemma satisfies_caret: "semver_satisfies ''1.5.0'' ''^1.2.0'' = Inr True"
  by code_simp

lemma satisfies_build_ignored: "semver_satisfies ''1.2.3+5'' ''1.2.3'' = Inr True"
  by code_simp

lemma validRange_8: "semver_validRange ''8'' = Some ''>=8.0.0 <9.0.0-0''"
  by code_simp

lemma validRange_11_0_2: "semver_validRange ''11.0.2'' = Some ''11.0.2''"
  by code_simp

lemma validRange_empty: "semver_validRange [] = Some ''*''"
  by code_simp

lemma validRange_x: "semver_validRange ''x'' = Some ''*''"
  by code_simp

lemma coerce_8:
  "semver_coerce (VString ''8'') =
     Some \<lparr>sv_major = 8, sv_minor = 0, sv_patch = 0, sv_prerelease = [],
           sv_build = [], sv_version = ''8.0.0''\<rparr>"
  by code_simp

lemma coerce_11_0_2:
  "semver_coerce (VString ''11.0.2'') =
     Some \<lparr>sv_major = 11, sv_minor = 0, sv_patch = 2, sv_prerelease = [],
           sv_build = [], sv_version = ''11.0.2''\<rparr>"
  by code_simp

lemma coerce_x: "semver_coerce (VString ''x'') = None"
  by code_simp

lemma coerce_1_dot:
  "semver_coerce (VString ''1.'') =
     Some \<lparr>sv_major = 1, sv_minor = 0, sv_patch = 0, sv_prerelease = [],
           sv_build = [], sv_version = ''1.0.0''\<rparr>"
  by code_simp

lemma plain_1_8: "map_option (\<lambda>r. grp (snd (snd (snd r))) 1) (regex_exec False plainVersionRegExp ''1.8'') = Some (Some ''1.8'')"
  by code_simp

lemma plain_11_0_2: "map_option (\<lambda>r. grp (snd (snd (snd r))) 1) (regex_exec False plainVersionRegExp ''11.0.2'') = Some (Some ''11.0.2'')"
  by code_simp

lemma plain_1_dot: "map_option (\<lambda>r. grp (snd (snd (snd r))) 1) (regex_exec False plainVersionRegExp ''1.'') = Some (Some ''1.'')"
  by code_simp

lemma plain_1_x: "map_option (\<lambda>r. grp (snd (snd (snd r))) 1) (regex_exec False plainVersionRegExp ''1.x'') = Some (Some ''1.x'')"
  by code_simp

lemma plain_1_ea: "map_option (\<lambda>r. grp (snd (snd (snd r))) 1) (regex_exec False plainVersionRegExp ''1.-ea'') = Some (Some ''1.-ea'')"
  by code_simp

lemma tool_1_8: "regex_exec True toolVersionsRegExp ''1.8'' = None"
  by code_simp

lemma tool_java_11_0_2: "map_option (\<lambda>r. grp (snd (snd (snd r))) 2) (regex_exec True toolVersionsRegExp ''java 11.0.2'') = Some (Some ''11.0.2'')"
  by code_simp

lemma tool_java_1_8: "map_option (\<lambda>r. grp (snd (snd (snd r))) 2) (regex_exec True toolVersionsRegExp ''java 1.8'') = Some (Some ''1.8'')"
  by code_simp

lemma SemVer_new_1_2_3_build_5:
  "SemVer_new ''1.2.3+5'' =
     Inr \<lparr>sv_major = 1, sv_minor = 2, sv_patch = 3, sv_prerelease = [],
          sv_build = [''5''], sv_version = ''1.2.3''\<rparr>"
  by code_simp

lemma SemVer_new_1_2_3:
  "SemVer_new ''1.2.3'' =
     Inr \<lparr>sv_major = 1, sv_minor = 2, sv_patch = 3, sv_prerelease = [],
          sv_build = [], sv_version = ''1.2.3''\<rparr>"
  by code_simp

lemma SemVer_new_1_2: "SemVer_new ''1.2'' = Inl TypeError"
  by code_simp

lemma number_toString_8: "number_toString 8 = ''8''"
  by code_simp

lemma number_toString_11: "number_toString 11 = ''11''"
  by code_simp

lemma plain_11_0_2_1: "map_option (\<lambda>r. grp (snd (snd (snd r))) 1) (regex_exec False plainVersionRegExp ''11.0.2.1'') = Some (Some ''11.0.2.1'')"
  by code_simp

lemma validRange_11_0_2_1: "semver_validRange ''11.0.2.1'' = None"
  by code_simp

lemma coerce_11_0_2_1:
  "semver_coerce (VString ''11.0.2.1'') =
     Some \<lparr>sv_major = 11, sv_minor = 0, sv_patch = 2, sv_prerelease = [],
           sv_build = [], sv_version = ''11.0.2''\<rparr>"
  by code_simp

subsection \<open>Strings, numbers and parsed versions\<close>

lemma split_chr_not_Nil: "split_chr c s \<noteq> []"
  by (induction s) (auto split: list.splits)

lemma hd_split_chr: "hd (split_chr c s) = takeWhile (\<lambda>x. x \<noteq> c) s"
proof (induction s)
  case Nil
  show ?case by simp
next
  case (Cons x xs)
  obtain y ys where "split_chr c xs = y # ys"
    using split_chr_not_Nil [of c xs] by (cases "split_chr c xs") auto
  with Cons show ?case by simp
qed

lemma compareLoop_refl: "compareLoop xs xs = 0"
  by (induction xs) auto

lemma compareLoop_Nil_right: "xs \<noteq> [] \<Longrightarrow> compareLoop xs [] \<noteq> 0"
  by (cases xs) auto

lemma decimal_digits_not_Nil: "decimal_digits n \<noteq> []"
  by (subst decimal_digits.simps) simp

lemma format_not_Nil: "format M m p pre \<noteq> []"
  by (simp add: format_def Let_def number_toString_def decimal_digits_not_Nil)

lemma SemVer_new_version:
  assumes "SemVer_new v = Inr sv"
  shows "sv_version sv = format (sv_major sv) (sv_minor sv) (sv_patch sv) (sv_prerelease sv)"
  using assms
  by (auto simp: SemVer_new_def Let_def split: if_splits option.splits prod.splits)

lemma semver_parse_Some: "semver_parse v = Some sv \<longleftrightarrow> SemVer_new v = Inr sv"
  by (auto simp: semver_parse_def split: sum.splits)

lemma semver_parse_None: "semver_parse v = None \<longleftrightarrow> SemVer_new v = Inl TypeError"
proof -
  have "e = TypeError" for e :: js_error by (cases e) simp
  then show ?thesis by (auto simp: semver_parse_def split: sum.splits)
qed

lemma semver_valid_truthy:
  assumes "semver_parse v = Some sv"
  shows "truthy (semver_valid v)"
proof -
  have "SemVer_new v = Inr sv"
    using assms by (simp add: semver_parse_Some)
  then have "sv_version sv \<noteq> []"
    by (simp add: SemVer_new_version format_not_Nil)
  with assms show ?thesis
    by (simp add: semver_valid_def truthy_def)
qed

lemma isVersionSatisfies_build:
  assumes "semver_parse r = Some sr" and "sv_build sr \<noteq> []"
  shows "isVersionSatisfies r v =
    (case semver_compareBuild r v of Inl e \<Rightarrow> Inl e | Inr c \<Rightarrow> Inr (c = 0))"
  using assms semver_valid_truthy [OF assms(1)]
  by (simp add: isVersionSatisfies_def)

lemma isVersionSatisfies_no_build:
  assumes "\<forall>sr. semver_parse r = Some sr \<longrightarrow> sv_build sr = []"
  shows "isVersionSatisfies r v = semver_satisfies v r"
  using assms
  by (auto simp: isVersionSatisfies_def split: option.splits)

lemma semver_compareBuild_parsed:
  assumes "semver_parse a = Some sa" and "semver_parse b = Some sb"
  shows "semver_compareBuild a b =
    Inr (if SemVer_compare sa sb \<noteq> 0 then SemVer_compare sa sb else SemVer_compareBuild sa sb)"
  using assms by (simp add: semver_compareBuild_def semver_parse_Some Let_def)

lemma semver_compareBuild_invalid:
  assumes "semver_parse a = Some sa" and "semver_parse b = None"
  shows "semver_compareBuild a b = Inl TypeError"
  using assms by (simp add: semver_compareBuild_def semver_parse_Some semver_parse_None)

lemma isDigit_digit_char: "isDigit (digit_char d)"
proof -
  have "nat (d mod 10) < length ''0123456789''" by simp
  then have "''0123456789'' ! nat (d mod 10) \<in> set ''0123456789''"
    by (rule nth_mem)
  then show ?thesis by (simp only: isDigit_def digit_char_def)
qed

lemma digit_value_digit_char: "digit_value (digit_char d) = d mod 10"
proof -
  define k where "k = nat (d mod 10)"
  have k: "int k = d mod 10" by (simp add: k_def)
  have "k < 10" by (simp add: k_def)
  then have "k \<in> {0, 1, 2, 3, 4, 5, 6, 7, 8, 9}" by auto
  then have "digit_value (''0123456789'' ! k) = int k"
    by (elim insertE emptyE) (simp_all add: digit_value_def isDigit_def)
  then show ?thesis by (simp add: digit_char_def k_def)
qed

lemma digits_value_snoc: "digits_value (xs @ [c]) = 10 * digits_value xs + digit_value c"
  by (simp add: digits_value_def)

lemma decimal_digits_isDigit: "list_all isDigit (decimal_digits n)"
proof (induction n rule: decimal_digits.induct)
  case (1 n)
  show ?case
  proof (cases "n < 10")
    case True
    then show ?thesis
      by (subst decimal_digits.simps) (simp add: isDigit_digit_char)
  next
    case False
    with "1" show ?thesis
      by (subst decimal_digits.simps) (simp add: isDigit_digit_char)
  qed
qed

lemma digits_value_decimal_digits: "0 \<le> n \<Longrightarrow> digits_value (decimal_digits n) = n"
proof (induction n rule: decimal_digits.induct)
  case (1 n)
  show ?case
  proof (cases "n < 10")
    case True
    with "1.prems" show ?thesis
      by (subst decimal_digits.simps) (simp add: digits_value_def digit_value_digit_char)
  next
    case False
    with "1.prems" have "0 \<le> n div 10" by simp
    with False "1.IH" have "digits_value (decimal_digits (n div 10)) = n div 10" by simp
    with False show ?thesis
      by (subst decimal_digits.simps) (simp add: digits_value_snoc digit_value_digit_char)
  qed
qed

lemma digit_value_nonneg: "0 \<le> digit_value c"
proof (cases "isDigit c")
  case True
  then have "c \<in> set ''0123456789''" by (simp only: isDigit_def)
  then show ?thesis
    by (auto simp: digit_value_def isDigit_def)
next
  case False
  then show ?thesis by (simp add: digit_value_def)
qed

lemma foldl_digits_nonneg: "0 \<le> a \<Longrightarrow> 0 \<le> foldl (\<lambda>n c. 10 * n + digit_value c) a s"
proof (induction s arbitrary: a)
  case Nil
  then show ?case by simp
next
  case (Cons c s)
  have "0 \<le> 10 * a + digit_value c"
    using Cons.prems digit_value_nonneg [of c] by simp
  then show ?case using Cons.IH by simp
qed

lemma digits_value_nonneg: "0 \<le> digits_value s"
  by (simp add: digits_value_def foldl_digits_nonneg)

lemma round_double_nonneg:
  assumes "0 \<le> n"
  shows "0 \<le> round_double n"
proof -
  have q: "0 \<le> n div 2 ^ e" for e :: nat
    using assms by (simp add: pos_imp_zdiv_nonneg_iff)
  have "0 \<le> (if b then n div 2 ^ e + 1 else n div 2 ^ e) * 2 ^ e" for b and e :: nat
    using q [of e] by simp
  then show ?thesis
    using assms by (simp add: round_double_def Let_def)
qed

lemma toNumber_nonneg: "0 \<le> toNumber s"
  by (simp add: toNumber_def round_double_nonneg digits_value_nonneg)

lemma SemVer_new_bounds:
  assumes "SemVer_new v = Inr sv"
  shows "0 \<le> sv_major sv \<and> sv_major sv \<le> MAX_SAFE_INTEGER \<and>
         0 \<le> sv_minor sv \<and> sv_minor sv \<le> MAX_SAFE_INTEGER \<and>
         0 \<le> sv_patch sv \<and> sv_patch sv \<le> MAX_SAFE_INTEGER"
  using assms
  by (auto simp: SemVer_new_def Let_def toNumber_nonneg split: if_splits option.splits prod.splits)

lemma toNumber_number_toString:
  assumes "0 \<le> n" and "n \<le> MAX_SAFE_INTEGER"
  shows "toNumber (number_toString n) = n \<and> numeric (number_toString n)"
proof -
  have "number_toString n = decimal_digits n"
    using assms by (simp add: number_toString_def)
  moreover have "round_double n = n"
    using assms by (simp add: round_double_def MAX_SAFE_INTEGER_def)
  ultimately show ?thesis
    using assms
    by (simp add: toNumber_def digits_value_decimal_digits numeric_def decimal_digits_isDigit
        decimal_digits_not_Nil)
qed

lemma compareIdentifiers_Num:
  assumes "0 \<le> a" "a \<le> MAX_SAFE_INTEGER" "0 \<le> b" "b \<le> MAX_SAFE_INTEGER"
  shows "compareIdentifiers (Num a) (Num b) = (if a = b then 0 else if a < b then - 1 else 1)"
  using toNumber_number_toString [OF assms(1,2)] toNumber_number_toString [OF assms(3,4)]
  by (simp add: compareIdentifiers_def id_toString_def Let_def)

lemma takeWhile_digits:
  assumes "list_all isDigit xs" and "ys = [] \<or> \<not> isDigit (hd ys)"
  shows "takeWhile isDigit (xs @ ys) = xs \<and> dropWhile isDigit (xs @ ys) = ys"
proof -
  have "takeWhile isDigit ys = [] \<and> dropWhile isDigit ys = ys"
    using assms(2) by (cases ys) auto
  with assms(1) show ?thesis by (induction xs) auto
qed

lemma format_components:
  assumes "0 \<le> M" "0 \<le> m" "0 \<le> p"
  shows "digits_value (takeWhile isDigit (format M m p pre)) = M"
    and "digits_value (takeWhile isDigit (tl (dropWhile isDigit (format M m p pre)))) = m"
    and "digits_value (takeWhile isDigit
           (tl (dropWhile isDigit (tl (dropWhile isDigit (format M m p pre)))))) = p"
proof -
  define suffix where "suffix = (if pre \<noteq> [] then ''-'' @ join ''.'' (map id_toString pre) else [])"
  have f: "format M m p pre =
      decimal_digits M @ CHR ''.'' # (decimal_digits m @ CHR ''.'' # (decimal_digits p @ suffix))"
    using assms by (simp add: format_def Let_def number_toString_def suffix_def)
  have dot: "\<not> isDigit (CHR ''.'')" by (simp add: isDigit_def)
  have suf: "suffix = [] \<or> \<not> isDigit (hd suffix)"
    by (simp add: suffix_def isDigit_def)
  have 1: "takeWhile isDigit (format M m p pre) = decimal_digits M"
    and 2: "dropWhile isDigit (format M m p pre) =
            CHR ''.'' # (decimal_digits m @ CHR ''.'' # (decimal_digits p @ suffix))"
    unfolding f using takeWhile_digits [OF decimal_digits_isDigit [of M], of
        "CHR ''.'' # (decimal_digits m @ CHR ''.'' # (decimal_digits p @ suffix))"] dot
    by simp_all
  have 3: "takeWhile isDigit (decimal_digits m @ CHR ''.'' # (decimal_digits p @ suffix)) =
             decimal_digits m"
    and 4: "dropWhile isDigit (decimal_digits m @ CHR ''.'' # (decimal_digits p @ suffix)) =
             CHR ''.'' # (decimal_digits p @ suffix)"
    using takeWhile_digits [OF decimal_digits_isDigit [of m], of
        "CHR ''.'' # (decimal_digits p @ suffix)"] dot
    by simp_all
  have 5: "takeWhile isDigit (decimal_digits p @ suffix) = decimal_digits p"
    using takeWhile_digits [OF decimal_digits_isDigit [of p], of suffix] suf by simp
  show "digits_value (takeWhile isDigit (format M m p pre)) = M"
    using assms by (simp add: 1 digits_value_decimal_digits)
  show "digits_value (takeWhile isDigit (tl (dropWhile isDigit (format M m p pre)))) = m"
    using assms by (simp add: 2 3 digits_value_decimal_digits)
  show "digits_value (takeWhile isDigit
           (tl (dropWhile isDigit (tl (dropWhile isDigit (format M m p pre)))))) = p"
    using assms by (simp add: 2 4 5 digits_value_decimal_digits)
qed

lemma compareMain_zero:
  assumes a: "SemVer_new va = Inr sa" and b: "SemVer_new vb = Inr sb"
    and z: "compareMain sa sb = 0"
  shows "sv_major sa = sv_major sb \<and> sv_minor sa = sv_minor sb \<and> sv_patch sa = sv_patch sb"
proof -
  note ba = SemVer_new_bounds [OF a] and bb = SemVer_new_bounds [OF b]
  have M: "compareIdentifiers (Num (sv_major sa)) (Num (sv_major sb)) =
      (if sv_major sa = sv_major sb then 0 else if sv_major sa < sv_major sb then - 1 else 1)"
    using ba bb by (intro compareIdentifiers_Num) simp_all
  have m: "compareIdentifiers (Num (sv_minor sa)) (Num (sv_minor sb)) =
      (if sv_minor sa = sv_minor sb then 0 else if sv_minor sa < sv_minor sb then - 1 else 1)"
    using ba bb by (intro compareIdentifiers_Num) simp_all
  have p: "compareIdentifiers (Num (sv_patch sa)) (Num (sv_patch sb)) =
      (if sv_patch sa = sv_patch sb then 0 else if sv_patch sa < sv_patch sb then - 1 else 1)"
    using ba bb by (intro compareIdentifiers_Num) simp_all
  show ?thesis
    using z unfolding compareMain_def Let_def M m p
    by (simp split: if_splits)
qed

lemma SemVer_compare_zero:
  assumes a: "SemVer_new va = Inr sa" and b: "SemVer_new vb = Inr sb"
    and z: "SemVer_compare sa sb = 0"
  shows "sv_major sa = sv_major sb \<and> sv_minor sa = sv_minor sb \<and> sv_patch sa = sv_patch sb"
proof (cases "sv_version sb = sv_version sa")
  case True
  note ba = SemVer_new_bounds [OF a] and bb = SemVer_new_bounds [OF b]
  have eq: "format (sv_major sa) (sv_minor sa) (sv_patch sa) (sv_prerelease sa) =
            format (sv_major sb) (sv_minor sb) (sv_patch sb) (sv_prerelease sb)"
    using True SemVer_new_version [OF a] SemVer_new_version [OF b] by simp
  have "sv_major sa = sv_major sb"
    using format_components(1) [of "sv_major sa" "sv_minor sa" "sv_patch sa" "sv_prerelease sa"]
      format_components(1) [of "sv_major sb" "sv_minor sb" "sv_patch sb" "sv_prerelease sb"]
      ba bb eq by simp
  moreover have "sv_minor sa = sv_minor sb"
    using format_components(2) [of "sv_major sa" "sv_minor sa" "sv_patch sa" "sv_prerelease sa"]
      format_components(2) [of "sv_major sb" "sv_minor sb" "sv_patch sb" "sv_prerelease sb"]
      ba bb eq by simp
  moreover have "sv_patch sa = sv_patch sb"
    using format_components(3) [of "sv_major sa" "sv_minor sa" "sv_patch sa" "sv_prerelease sa"]
      format_components(3) [of "sv_major sb" "sv_minor sb" "sv_patch sb" "sv_prerelease sb"]
      ba bb eq by simp
  ultimately show ?thesis by simp
next
  case False
  with z have "compareMain sa sb = 0"
    by (simp add: SemVer_compare_def Let_def split: if_splits)
  then show ?thesis by (rule compareMain_zero [OF a b])
qed

subsection \<open>C1: a range that is an exact version with build metadata\<close>

text \<open>
  For a range that parses as a version with build metadata the function is
  \<open>compareBuild\<close> of the range and the version: a range matches itself, and a version
  that matches has the major, minor and patch numbers of the range and carries build
  metadata too. The three examples of the specification hold: \<open>1.2.3+4\<close> matches
  \<open>1.2.3+4\<close> and neither \<open>1.2.3+5\<close> nor \<open>1.2.3\<close>.
\<close>

lemma isVersionSatisfies_compareBuild:
  assumes "semver_parse r = Some sr" and "sv_build sr \<noteq> []"
  shows "isVersionSatisfies r r = Inr True \<and>
    (semver_parse v = Some sv \<longrightarrow>
       isVersionSatisfies r v =
         Inr (SemVer_compare sr sv = 0 \<and> SemVer_compareBuild sr sv = 0)) \<and>
    (isVersionSatisfies r v = Inr True \<longrightarrow>
       (\<exists>sv'. semver_parse v = Some sv' \<and> sv_major sv' = sv_major sr \<and>
              sv_minor sv' = sv_minor sr \<and> sv_patch sv' = sv_patch sr \<and> sv_build sv' \<noteq> []))"
proof -
  note eq = isVersionSatisfies_build [OF assms]
  have parsed: "isVersionSatisfies r w =
      Inr (SemVer_compare sr sw = 0 \<and> SemVer_compareBuild sr sw = 0)"
    if "semver_parse w = Some sw" for w sw
    by (simp add: eq semver_compareBuild_parsed [OF assms(1) that])
  have self: "isVersionSatisfies r r = Inr True"
    by (simp add: parsed [OF assms(1)] SemVer_compare_def SemVer_compareBuild_def compareLoop_refl)
  have invalid: "isVersionSatisfies r v = Inl TypeError" if "semver_parse v = None"
    by (simp add: eq semver_compareBuild_invalid [OF assms(1) that])
  have same: "\<exists>sv'. semver_parse v = Some sv' \<and> sv_major sv' = sv_major sr \<and>
      sv_minor sv' = sv_minor sr \<and> sv_patch sv' = sv_patch sr \<and> sv_build sv' \<noteq> []"
    if t: "isVersionSatisfies r v = Inr True"
  proof (cases "semver_parse v")
    case None
    with invalid t show ?thesis by simp
  next
    case (Some sv')
    with t parsed [OF Some]
    have c: "SemVer_compare sr sv' = 0" and b: "SemVer_compareBuild sr sv' = 0" by simp_all
    have "sv_major sr = sv_major sv' \<and> sv_minor sr = sv_minor sv' \<and> sv_patch sr = sv_patch sv'"
      using assms(1) Some c
      by (intro SemVer_compare_zero [of r sr v sv']) (simp_all add: semver_parse_Some)
    moreover have "sv_build sv' \<noteq> []"
    proof
      assume "sv_build sv' = []"
      with b have "compareLoop (map Str (sv_build sr)) [] = 0"
        by (simp add: SemVer_compareBuild_def)
      with assms(2) compareLoop_Nil_right [of "map Str (sv_build sr)"] show False by simp
    qed
    ultimately show ?thesis using Some by simp
  qed
  from self parsed same show ?thesis by blast
qed

lemma isVersionSatisfies_build_examples:
  "isVersionSatisfies ''1.2.3+4'' ''1.2.3+4'' = Inr True \<and>
   isVersionSatisfies ''1.2.3+4'' ''1.2.3+5'' = Inr False \<and>
   isVersionSatisfies ''1.2.3+4'' ''1.2.3'' = Inr False"
proof -
  have e1: "isVersionSatisfies ''1.2.3+4'' ''1.2.3+4'' = Inr True" by code_simp
  have e2: "isVersionSatisfies ''1.2.3+4'' ''1.2.3+5'' = Inr False" by code_simp
  have e3: "isVersionSatisfies ''1.2.3+4'' ''1.2.3'' = Inr False" by code_simp
  from e1 e2 e3 show ?thesis by simp
qed

text \<open>
  C1. The comment of the function asks for a check of exact equality when the range is
  a version with build metadata, as the claim does, and the code does not make that
  check: \<open>compareBuild\<close> is an ordering, and it is 0 for versions with different build
  metadata. For the range \<open>1.2.3+4\<close> and the version \<open>1.2.3+04.7\<close> it compares the
  first build identifiers, \<open>4\<close> and \<open>04\<close>, finds them equal as numbers, and returns 0
  without looking at \<open>7\<close>: the function returns true, and the build metadata are
  \<open>[4]\<close> and \<open>[04, 7]\<close>. In the same way the range \<open>1.2.3+04.5\<close> matches the version
  \<open>1.2.3+4.6\<close>. And for the string \<open>1.2\<close>, which is not a valid version, the function
  throws the \<open>TypeError\<close> of \<open>compareBuild\<close>, where the claim has the result false
  and \<open>semver.satisfies\<close>, the other path of the function, returns false.
\<close>

theorem C1_numeric_build_identifiers:
  "map_option sv_build (semver_parse ''1.2.3+4'') = Some [''4''] \<and>
   map_option sv_build (semver_parse ''1.2.3+04.7'') = Some [''04'', ''7''] \<and>
   isVersionSatisfies ''1.2.3+4'' ''1.2.3+04.7'' = Inr True \<and>
   map_option sv_build (semver_parse ''1.2.3+04.5'') = Some [''04'', ''5''] \<and>
   map_option sv_build (semver_parse ''1.2.3+4.6'') = Some [''4'', ''6''] \<and>
   isVersionSatisfies ''1.2.3+04.5'' ''1.2.3+4.6'' = Inr True \<and>
   semver_parse ''1.2'' = None \<and>
   isVersionSatisfies ''1.2.3+4'' ''1.2'' = Inl TypeError \<and>
   semver_satisfies ''1.2'' ''1.2.3+4'' = Inr False"
  by (simp add: isVersionSatisfies_def semver_valid_def semver_parse_def semver_compareBuild_def
      SemVer_new_1_2_3_build_04_5 SemVer_new_1_2_3_build_4_6 SemVer_new_1_2_3_build_4
      SemVer_new_1_2_3_build_04_7 SemVer_new_1_2 satisfies_invalid_version
      truthy_def SemVer_compare_def
      SemVer_compareBuild_def compareIdentifiers_def id_toString_def numeric_def isDigit_def
      toNumber_def digits_value_def digit_value_def round_double_def Let_def)

subsection \<open>C2: every other range\<close>

text \<open>
  C2. For a range that is not a valid version with build metadata (it does not parse
  as a version, or it parses with an empty build), \<open>isVersionSatisfies\<close> returns what
  \<open>semver.satisfies\<close> returns for the version and the range; \<open>1.5.0\<close> satisfies
  \<open>^1.2.0\<close>, and \<open>1.2.3+5\<close> satisfies \<open>1.2.3\<close>, since the build metadata of the
  version is ignored.
\<close>

theorem C2_isVersionSatisfies_range:
  "((\<forall>sr. semver_parse r = Some sr \<longrightarrow> sv_build sr = []) \<longrightarrow>
      isVersionSatisfies r v = semver_satisfies v r) \<and>
   isVersionSatisfies ''^1.2.0'' ''1.5.0'' = Inr True \<and>
   isVersionSatisfies ''1.2.3'' ''1.2.3+5'' = Inr True"
proof -
  have "semver_parse ''^1.2.0'' = None"
    by (simp add: semver_parse_def SemVer_new_caret)
  then have "isVersionSatisfies ''^1.2.0'' ''1.5.0'' = semver_satisfies ''1.5.0'' ''^1.2.0''"
    by (intro isVersionSatisfies_no_build) simp
  moreover have "isVersionSatisfies ''1.2.3'' ''1.2.3+5'' = semver_satisfies ''1.2.3+5'' ''1.2.3''"
    by (intro isVersionSatisfies_no_build) (simp add: semver_parse_def SemVer_new_1_2_3)
  ultimately show ?thesis
    using isVersionSatisfies_no_build [of r v]
    by (simp add: satisfies_caret satisfies_build_ignored)
qed

text \<open>
  The theorem of C2 at \<open>^1.2.0\<close>, which is not a version, and at \<open>1.2.3\<close>, a version
  without build metadata.
\<close>

theorem C2_isVersionSatisfies_range_witness:
  "semver_parse ''^1.2.0'' = None \<and>
   isVersionSatisfies ''^1.2.0'' ''1.5.0'' = semver_satisfies ''1.5.0'' ''^1.2.0'' \<and>
   map_option sv_build (semver_parse ''1.2.3'') = Some [] \<and>
   isVersionSatisfies ''1.2.3'' ''1.2.3+5'' = semver_satisfies ''1.2.3+5'' ''1.2.3''"
  using C2_isVersionSatisfies_range [of "''^1.2.0''" "''1.5.0''"]
    C2_isVersionSatisfies_range [of "''1.2.3''" "''1.2.3+5''"]
  by (simp add: semver_parse_def SemVer_new_caret SemVer_new_1_2_3)

lemma versionFromFile_plain:
  "basename f \<noteq> ''.tool-versions'' \<Longrightarrow>
   versionFromFile basename content f =
     (case map_option (\<lambda>r. grp (snd (snd (snd r))) 1) (regex_exec False plainVersionRegExp content) of
        Some (Some v) \<Rightarrow> v
      | _ \<Rightarrow> [])"
  by (simp add: versionFromFile_def Let_def)

lemma versionFromFile_tool:
  "basename f = ''.tool-versions'' \<Longrightarrow>
   versionFromFile basename content f =
     (case map_option (\<lambda>r. grp (snd (snd (snd r))) 2) (regex_exec True toolVersionsRegExp content) of
        Some (Some v) \<Rightarrow> v
      | _ \<Rightarrow> [])"
  by (simp add: versionFromFile_def Let_def)

lemma versionFromFile_plain_value:
  assumes "basename f \<noteq> ''.tool-versions''"
    and "map_option (\<lambda>r. grp (snd (snd (snd r))) 1)
           (regex_exec False plainVersionRegExp content) = Some (Some v)"
  shows "versionFromFile basename content f = v"
  using versionFromFile_plain [of basename f content, OF assms(1)] assms(2)
  by (simp only: option.case)

lemma versionFromFile_tool_value:
  assumes "basename f = ''.tool-versions''"
    and "map_option (\<lambda>r. grp (snd (snd (snd r))) 2)
           (regex_exec True toolVersionsRegExp content) = Some (Some v)"
  shows "versionFromFile basename content f = v"
  using versionFromFile_tool [of basename f content, OF assms(1)] assms(2)
  by (simp only: option.case)

lemma validRange_truthy: "truthy (semver_validRange r) = (semver_validRange r \<noteq> None)"
  by (simp add: semver_validRange_def truthy_def split: sum.splits)

lemma rangeVersion_eq:
  "rangeVersion t =
     (if semver_validRange (takeWhile (\<lambda>c. c \<noteq> CHR ''-'') (avoidOldNotation t)) \<noteq> None
      then Some (VString (avoidOldNotation t))
      else map_option VSemVer (semver_coerce (VString (avoidOldNotation t))))"
  by (simp add: rangeVersion_def Let_def validRange_truthy hd_split_chr)

lemma avoidOldNotation_1_8: "avoidOldNotation ''1.8'' = ''8''"
  by (simp add: avoidOldNotation_def startsWith_def substring_def)

lemma avoidOldNotation_11_0_2: "avoidOldNotation ''11.0.2'' = ''11.0.2''"
  by (simp add: avoidOldNotation_def startsWith_def substring_def)

lemma rangeVersion_1_8: "rangeVersion ''1.8'' = Some (VString ''8'')"
  by (simp add: rangeVersion_eq avoidOldNotation_1_8 validRange_8)

lemma rangeVersion_11_0_2: "rangeVersion ''11.0.2'' = Some (VString ''11.0.2'')"
  by (simp add: rangeVersion_eq avoidOldNotation_11_0_2 validRange_11_0_2)

lemma result_1_8:
  assumes "versionFromFile basename content f = ''1.8''"
  shows "getVersionFromFileContent basename M content d f = Inr (Some ''8'')"
  using assms
  by (simp add: getVersionFromFileContent_def Let_def rangeVersion_1_8 version_truthy_def
      version_toString_def coerce_8 semver_major_def number_toString_8)

lemma result_11_0_2:
  assumes "versionFromFile basename content f = ''11.0.2''"
  shows "getVersionFromFileContent basename M content d f =
    Inr (Some (if d \<in> set M then ''11'' else ''11.0.2''))"
  using assms
  by (simp add: getVersionFromFileContent_def Let_def rangeVersion_11_0_2 version_truthy_def
      version_toString_def coerce_11_0_2 semver_major_def number_toString_11)

subsection \<open>C3: the legacy notation\<close>

text \<open>
  C3, as the claim states it, fails for a version file named \<open>.tool-versions\<close>: its
  expression wants a line \<open>java ...\<close>, the content \<open>1.8\<close> has no match, and the result
  is \<open>null\<close>. (\<open>path.basename\<close> leaves a bare file name as it is.)
\<close>

theorem C3_tool_versions_counterexample:
  "getVersionFromFileContent (\<lambda>p. p) [''corretto''] ''1.8'' ''temurin'' ''.tool-versions'' = Inr None"
proof -
  have "versionFromFile (\<lambda>p. p) ''1.8'' ''.tool-versions'' = []"
    by (simp only: versionFromFile_tool [of "\<lambda>p. p" "''.tool-versions''"] tool_1_8
        option.map option.case)
  then show ?thesis
    by (simp add: getVersionFromFileContent_def)
qed

text \<open>
  C3, amended. \<open>avoidOldNotation\<close> drops the first two characters of a string that
  starts with \<open>1.\<close>, and only of such a string. For every distribution name and every
  major-only list, the content \<open>1.8\<close> yields \<open>8\<close> when the version file is not named
  \<open>.tool-versions\<close>, and the content \<open>java 1.8\<close> yields \<open>8\<close> when it is.
\<close>

theorem C3_legacy_notation:
  "avoidOldNotation s = (if startsWith s ''1.'' then drop 2 s else s) \<and>
   startsWith s ''1.'' = (\<exists>t. s = ''1.'' @ t) \<and>
   avoidOldNotation (''1.'' @ t) = t \<and>
   (basename f \<noteq> ''.tool-versions'' \<longrightarrow>
      getVersionFromFileContent basename M ''1.8'' d f = Inr (Some ''8'')) \<and>
   (basename f = ''.tool-versions'' \<longrightarrow>
      getVersionFromFileContent basename M ''java 1.8'' d f = Inr (Some ''8''))"
proof -
  have "startsWith s ''1.'' = (\<exists>t. s = ''1.'' @ t)"
  proof
    assume "startsWith s ''1.''"
    then have "take 2 s = ''1.''"
      by (simp add: startsWith_def numeral_2_eq_2)
    then have "s = ''1.'' @ drop 2 s"
      using append_take_drop_id [of 2 s] by metis
    then show "\<exists>t. s = ''1.'' @ t" ..
  next
    assume "\<exists>t. s = ''1.'' @ t"
    then show "startsWith s ''1.''" by (auto simp: startsWith_def)
  qed
  moreover have "getVersionFromFileContent basename M ''1.8'' d f = Inr (Some ''8'')"
    if "basename f \<noteq> ''.tool-versions''"
    by (rule result_1_8) (rule versionFromFile_plain_value [of basename f, OF that plain_1_8])
  moreover have "getVersionFromFileContent basename M ''java 1.8'' d f = Inr (Some ''8'')"
    if "basename f = ''.tool-versions''"
    by (rule result_1_8) (rule versionFromFile_tool_value [of basename f, OF that tool_java_1_8])
  ultimately show ?thesis
    by (simp add: avoidOldNotation_def startsWith_def substring_def)
qed

text \<open>The theorem of C3 for the files \<open>.java-version\<close> and \<open>.tool-versions\<close>.\<close>

theorem C3_legacy_notation_witness:
  "getVersionFromFileContent (\<lambda>p. p) [''corretto''] ''1.8'' ''corretto'' ''.java-version'' =
     Inr (Some ''8'') \<and>
   getVersionFromFileContent (\<lambda>p. p) [''corretto''] ''1.8'' ''temurin'' ''.java-version'' =
     Inr (Some ''8'') \<and>
   getVersionFromFileContent (\<lambda>p. p) [''corretto''] ''java 1.8'' ''temurin'' ''.tool-versions'' =
     Inr (Some ''8'')"
  using C3_legacy_notation [of _ _ "\<lambda>p. p" "''.java-version''" "[''corretto'']" "''corretto''"]
    C3_legacy_notation [of _ _ "\<lambda>p. p" "''.java-version''" "[''corretto'']" "''temurin''"]
    C3_legacy_notation [of _ _ "\<lambda>p. p" "''.tool-versions''" "[''corretto'']" "''temurin''"]
  by simp

lemma versionFromFile_plain_11_0_2:
  "versionFromFile (\<lambda>p. p) ''11.0.2'' ''.java-version'' = ''11.0.2''"
  by (rule versionFromFile_plain_value [OF _ plain_11_0_2]) simp

lemma versionFromFile_plain_1_8:
  "versionFromFile (\<lambda>p. p) ''1.8'' ''.java-version'' = ''1.8''"
  by (rule versionFromFile_plain_value [OF _ plain_1_8]) simp

lemma versionFromFile_plain_1_dot:
  "versionFromFile (\<lambda>p. p) ''1.'' ''.java-version'' = ''1.''"
  by (rule versionFromFile_plain_value [OF _ plain_1_dot]) simp

lemma versionFromFile_plain_1_x:
  "versionFromFile (\<lambda>p. p) ''1.x'' ''.java-version'' = ''1.x''"
  by (rule versionFromFile_plain_value [OF _ plain_1_x]) simp

lemma versionFromFile_plain_1_ea:
  "versionFromFile (\<lambda>p. p) ''1.-ea'' ''.java-version'' = ''1.-ea''"
  by (rule versionFromFile_plain_value [OF _ plain_1_ea]) simp

lemma rangeVersion_1_dot: "rangeVersion ''1.'' = Some (VString [])"
  by (simp add: rangeVersion_eq avoidOldNotation_def startsWith_def substring_def validRange_empty)

lemma rangeVersion_1_x: "rangeVersion ''1.x'' = Some (VString ''x'')"
  by (simp add: rangeVersion_eq avoidOldNotation_def startsWith_def substring_def validRange_x)

lemma rangeVersion_1_ea: "rangeVersion ''1.-ea'' = Some (VString ''-ea'')"
  by (simp add: rangeVersion_eq avoidOldNotation_def startsWith_def substring_def validRange_empty)

lemma coerce_SemVer: "semver_coerce (VSemVer sv) = Some sv"
  by (simp add: semver_coerce_def)

lemma result_other:
  assumes "versionFromFile basename content f \<noteq> []"
    and "rangeVersion (versionFromFile basename content f) = Some ver"
    and "version_truthy (Some ver)"
    and "d \<notin> set M"
  shows "getVersionFromFileContent basename M content d f = Inr (Some (version_toString ver))"
  using assms by (simp add: getVersionFromFileContent_def Let_def)

lemma result_major_only:
  assumes "versionFromFile basename content f \<noteq> []"
    and "rangeVersion (versionFromFile basename content f) = Some ver"
    and "version_truthy (Some ver)"
    and "d \<in> set M"
    and "semver_coerce ver = Some sv"
  shows "getVersionFromFileContent basename M content d f =
    Inr (Some (number_toString (sv_major sv)))"
  using assms by (simp add: getVersionFromFileContent_def Let_def semver_major_def)

subsection \<open>C4: distributions that track the major version only\<close>

lemma versionFromFile_plain_1_star:
  "versionFromFile (\<lambda>p. p) ''1.*'' ''.java-version'' = ''1.*''"
  by (rule versionFromFile_plain_value [OF _ plain_1_star]) simp

lemma rangeVersion_1_star: "rangeVersion ''1.*'' = Some (VString ''*'')"
  by (simp add: rangeVersion_eq avoidOldNotation_def startsWith_def substring_def validRange_star)

text \<open>
  C4, as the claim states it, fails. From the content \<open>1.*\<close> the token \<open>1.*\<close> is
  extracted, and the legacy rewrite leaves the range \<open>*\<close>, which is the resolved
  version. It has no major number: nothing can be coerced from it, and for a major-only
  distribution \<open>semver.major\<close> is called on the string \<open>*\<close> and throws, so no string is
  returned.
\<close>

theorem C4_uncoercible_version_counterexample:
  "versionFromFile (\<lambda>p. p) ''1.*'' ''.java-version'' = ''1.*'' \<and>
   rangeVersion ''1.*'' = Some (VString ''*'') \<and>
   semver_coerce (VString ''*'') = None \<and>
   getVersionFromFileContent (\<lambda>p. p) [''corretto''] ''1.*'' ''corretto'' ''.java-version'' =
     Inl TypeError"
  by (simp add: getVersionFromFileContent_def Let_def versionFromFile_plain_1_star
      rangeVersion_1_star version_truthy_def coerce_star semver_major_def SemVer_new_star)

text \<open>
  C4, amended. Let the version of the file be resolved (a token was found, and the value
  of \<open>version\<close> is truthy). For a distribution name in the major-only list, when the
  resolved version can be coerced to a semantic version, the result is the major number
  of the coerced version, as a string; for a name outside the list it is the resolved
  version itself. The version \<open>11.0.2\<close> (the content \<open>11.0.2\<close>, or \<open>java 11.0.2\<close> in a
  file named \<open>.tool-versions\<close>) yields \<open>11\<close> in the first case and \<open>11.0.2\<close> in the
  second.
\<close>

theorem C4_major_only:
  "(versionFromFile basename content f \<noteq> [] \<and>
    rangeVersion (versionFromFile basename content f) = Some ver \<and>
    version_truthy (Some ver) \<and> d \<in> set M \<and> semver_coerce ver = Some sv \<longrightarrow>
      getVersionFromFileContent basename M content d f =
        Inr (Some (number_toString (sv_major sv)))) \<and>
   (versionFromFile basename content f \<noteq> [] \<and>
    rangeVersion (versionFromFile basename content f) = Some ver \<and>
    version_truthy (Some ver) \<and> d \<notin> set M \<longrightarrow>
      getVersionFromFileContent basename M content d f = Inr (Some (version_toString ver))) \<and>
   (basename f \<noteq> ''.tool-versions'' \<longrightarrow>
      getVersionFromFileContent basename M ''11.0.2'' d f =
        Inr (Some (if d \<in> set M then ''11'' else ''11.0.2''))) \<and>
   (basename f = ''.tool-versions'' \<longrightarrow>
      getVersionFromFileContent basename M ''java 11.0.2'' d f =
        Inr (Some (if d \<in> set M then ''11'' else ''11.0.2'')))"
proof -
  have "getVersionFromFileContent basename M ''11.0.2'' d f =
      Inr (Some (if d \<in> set M then ''11'' else ''11.0.2''))"
    if "basename f \<noteq> ''.tool-versions''"
    by (rule result_11_0_2) (rule versionFromFile_plain_value [of basename f, OF that plain_11_0_2])
  moreover have "getVersionFromFileContent basename M ''java 11.0.2'' d f =
      Inr (Some (if d \<in> set M then ''11'' else ''11.0.2''))"
    if "basename f = ''.tool-versions''"
    by (rule result_11_0_2)
      (rule versionFromFile_tool_value [of basename f, OF that tool_java_11_0_2])
  ultimately show ?thesis
    using result_other [of basename content f ver d M]
      result_major_only [of basename content f ver d M sv]
    by blast
qed

text \<open>The theorem of C4 with the major-only list \<open>[corretto]\<close>.\<close>

theorem C4_major_only_witness:
  "getVersionFromFileContent (\<lambda>p. p) [''corretto''] ''11.0.2'' ''corretto'' ''.java-version'' =
     Inr (Some ''11'') \<and>
   getVersionFromFileContent (\<lambda>p. p) [''corretto''] ''11.0.2'' ''temurin'' ''.java-version'' =
     Inr (Some ''11.0.2'') \<and>
   getVersionFromFileContent (\<lambda>p. p) [''corretto''] ''1.8'' ''corretto'' ''.java-version'' =
     Inr (Some (number_toString 8))"
  using C4_major_only [of "\<lambda>p. p" _ "''.java-version''" _ "''corretto''" "[''corretto'']"]
    C4_major_only [of "\<lambda>p. p" _ "''.java-version''" _ "''temurin''" "[''corretto'']"]
    C4_major_only [of "\<lambda>p. p" "''1.8''" "''.java-version''" "VString ''8''" "''corretto''"
      "[''corretto'']" "\<lparr>sv_major = 8, sv_minor = 0, sv_patch = 0, sv_prerelease = [],
           sv_build = [], sv_version = ''8.0.0''\<rparr>"]
  by (simp add: versionFromFile_plain_1_8 rangeVersion_1_8 version_truthy_def coerce_8)

subsection \<open>C5: the result \<open>null\<close>\<close>

text \<open>
  C5, as the claim states it, fails in its second half. From the content \<open>1.\<close> the
  token \<open>1.\<close> is extracted; it can be coerced, and what the legacy rewrite and the
  suffix strip leave of it, the empty string, is a valid range; still the result is
  \<open>null\<close>, because the rewritten token is the empty string, which is falsy. And the
  content \<open>1.x\<close> with a major-only distribution does not return at all:
  \<open>semver.major\<close> throws on the range \<open>x\<close>.
\<close>

theorem C5_null_and_throw_counterexample:
  "versionFromFile (\<lambda>p. p) ''1.'' ''.java-version'' = ''1.'' \<and>
   semver_validRange (hd (split_chr CHR ''-'' (avoidOldNotation ''1.''))) = Some ''*'' \<and>
   semver_coerce (VString ''1.'') \<noteq> None \<and>
   getVersionFromFileContent (\<lambda>p. p) [''corretto''] ''1.'' ''temurin'' ''.java-version'' = Inr None \<and>
   getVersionFromFileContent (\<lambda>p. p) [''corretto''] ''1.x'' ''corretto'' ''.java-version'' =
     Inl TypeError"
  by (simp add: getVersionFromFileContent_def Let_def versionFromFile_plain_1_dot
      versionFromFile_plain_1_x rangeVersion_1_dot rangeVersion_1_x version_truthy_def
      avoidOldNotation_def startsWith_def substring_def validRange_empty coerce_1_dot coerce_x
      semver_major_def SemVer_new_x)

text \<open>
  C5, amended. The result is \<open>null\<close> exactly when no token is extracted, or the token
  is empty after the legacy rewrite, or its suffix-stripped form is not a valid range
  and the token cannot be coerced either. Every other input gives a string, when the
  distribution is outside the major-only list or a semantic version can be coerced
  from the rewritten token (which then holds for the resolved version too).
\<close>

theorem C5_null_results:
  "(getVersionFromFileContent basename M content d f = Inr None) =
     (versionFromFile basename content f = [] \<or>
      avoidOldNotation (versionFromFile basename content f) = [] \<or>
      (semver_validRange (takeWhile (\<lambda>c. c \<noteq> CHR ''-'')
          (avoidOldNotation (versionFromFile basename content f))) = None \<and>
       semver_coerce (VString (avoidOldNotation (versionFromFile basename content f))) = None)) \<and>
   (\<not> (versionFromFile basename content f = [] \<or>
        avoidOldNotation (versionFromFile basename content f) = [] \<or>
        (semver_validRange (takeWhile (\<lambda>c. c \<noteq> CHR ''-'')
            (avoidOldNotation (versionFromFile basename content f))) = None \<and>
         semver_coerce (VString (avoidOldNotation (versionFromFile basename content f))) = None)) \<and>
    (d \<notin> set M \<or>
     semver_coerce (VString (avoidOldNotation (versionFromFile basename content f))) \<noteq> None) \<longrightarrow>
      (\<exists>s. getVersionFromFileContent basename M content d f = Inr (Some s)))"
proof -
  define t where "t = versionFromFile basename content f"
  define t' where "t' = avoidOldNotation t"
  define res where "res = getVersionFromFileContent basename M content d f"
  have rv: "rangeVersion t =
      (if semver_validRange (takeWhile (\<lambda>c. c \<noteq> CHR ''-'') t') \<noteq> None then Some (VString t')
       else map_option VSemVer (semver_coerce (VString t')))"
    by (simp add: rangeVersion_eq t'_def)
  have null: "(res = Inr None) = (t = [] \<or> \<not> version_truthy (rangeVersion t))"
    by (auto simp: res_def getVersionFromFileContent_def Let_def t_def split: sum.splits)
  have falsy: "(\<not> version_truthy (rangeVersion t)) =
      (t' = [] \<or> (semver_validRange (takeWhile (\<lambda>c. c \<noteq> CHR ''-'') t') = None \<and>
                  semver_coerce (VString t') = None))"
  proof (cases "t' = []")
    case True
    then show ?thesis by (simp add: rv validRange_empty version_truthy_def)
  next
    case False
    then show ?thesis
      by (auto simp: rv version_truthy_def split: option.splits)
  qed
  have other: "\<exists>x. res = Inr x" if "d \<notin> set M"
    using that by (simp add: res_def getVersionFromFileContent_def Let_def)
  have coerced: "\<exists>x. res = Inr x" if c: "semver_coerce (VString t') \<noteq> None" and "d \<in> set M"
  proof (cases "t = [] \<or> \<not> version_truthy (rangeVersion t)")
    case True
    with null show ?thesis by simp
  next
    case False
    from c obtain sv where sv: "semver_coerce (VString t') = Some sv" by auto
    have "semver_coerce (the (rangeVersion t)) = Some sv"
      by (simp add: rv sv coerce_SemVer)
    with False that(2) show ?thesis
      by (simp add: res_def getVersionFromFileContent_def Let_def t_def [symmetric]
          semver_major_def)
  qed
  have returns: "\<exists>x. res = Inr x"
    if "d \<notin> set M \<or> semver_coerce (VString t') \<noteq> None"
    using that other coerced by blast
  have string: "\<exists>s. res = Inr (Some s)"
    if "\<not> (t = [] \<or> t' = [] \<or>
          (semver_validRange (takeWhile (\<lambda>c. c \<noteq> CHR ''-'') t') = None \<and>
           semver_coerce (VString t') = None))"
      and "d \<notin> set M \<or> semver_coerce (VString t') \<noteq> None"
  proof -
    from returns [OF that(2)] obtain x where x: "res = Inr x" ..
    from that(1) null falsy have "res \<noteq> Inr None" by blast
    with x show ?thesis by (cases x) simp_all
  qed
  from null falsy string show ?thesis
    unfolding res_def t'_def t_def by blast
qed

text \<open>
  The theorem of C5 at the content \<open>1.x\<close> with a distribution outside the list, and at
  the content \<open>11.0.2\<close> with a distribution of the list.
\<close>

theorem C5_null_results_witness:
  "getVersionFromFileContent (\<lambda>p. p) [''corretto''] ''1.x'' ''temurin'' ''.java-version'' \<noteq> Inr None \<and>
   (\<exists>s. getVersionFromFileContent (\<lambda>p. p) [''corretto''] ''1.x'' ''temurin'' ''.java-version'' =
     Inr (Some s)) \<and>
   getVersionFromFileContent (\<lambda>p. p) [''corretto''] ''11.0.2'' ''corretto'' ''.java-version'' \<noteq> Inr None \<and>
   (\<exists>s. getVersionFromFileContent (\<lambda>p. p) [''corretto''] ''11.0.2'' ''corretto'' ''.java-version'' =
     Inr (Some s))"
  using C5_null_results [of "\<lambda>p. p" "[''corretto'']" "''1.x''" "''temurin''" "''.java-version''"]
    C5_null_results [of "\<lambda>p. p" "[''corretto'']" "''11.0.2''" "''corretto''" "''.java-version''"]
  by (simp add: versionFromFile_plain_1_x versionFromFile_plain_11_0_2 avoidOldNotation_def
      startsWith_def substring_def validRange_x validRange_11_0_2 coerce_11_0_2)

subsection \<open>C6: validation of the stripped token\<close>

text \<open>
  C6, as the claim states it, fails in three places. The token \<open>11.0.2\<close> is a valid
  range, and for a major-only distribution the result is \<open>11\<close>, not the token. The
  token \<open>1.8\<close> is returned as \<open>8\<close>: validation and result both use the token after
  the legacy rewrite. And for the token \<open>1.\<close> the stripped form is a valid range, but
  the result is \<open>null\<close>, not the token.
\<close>

theorem C6_returned_value_counterexample:
  "semver_validRange (hd (split_chr CHR ''-'' ''11.0.2'')) = Some ''11.0.2'' \<and>
   getVersionFromFileContent (\<lambda>p. p) [''corretto''] ''11.0.2'' ''corretto'' ''.java-version'' =
     Inr (Some ''11'') \<and>
   versionFromFile (\<lambda>p. p) ''1.8'' ''.java-version'' = ''1.8'' \<and>
   getVersionFromFileContent (\<lambda>p. p) [''corretto''] ''1.8'' ''temurin'' ''.java-version'' =
     Inr (Some ''8'') \<and>
   versionFromFile (\<lambda>p. p) ''1.'' ''.java-version'' = ''1.'' \<and>
   semver_validRange (hd (split_chr CHR ''-'' (avoidOldNotation ''1.''))) = Some ''*'' \<and>
   getVersionFromFileContent (\<lambda>p. p) [''corretto''] ''1.'' ''zulu'' ''.java-version'' = Inr None"
proof -
  have "getVersionFromFileContent (\<lambda>p. p) [''corretto''] ''11.0.2'' ''corretto''
      ''.java-version'' = Inr (Some ''11'')"
    using result_11_0_2 [OF versionFromFile_plain_11_0_2, of "[''corretto'']" "''corretto''"]
    by simp
  moreover have "getVersionFromFileContent (\<lambda>p. p) [''corretto''] ''1.8'' ''temurin''
      ''.java-version'' = Inr (Some ''8'')"
    by (rule result_1_8 [OF versionFromFile_plain_1_8])
  moreover have "getVersionFromFileContent (\<lambda>p. p) [''corretto''] ''1.'' ''zulu''
      ''.java-version'' = Inr None"
    by (simp add: getVersionFromFileContent_def Let_def versionFromFile_plain_1_dot
        rangeVersion_1_dot version_truthy_def)
  ultimately show ?thesis
    by (simp add: validRange_11_0_2 versionFromFile_plain_1_8 versionFromFile_plain_1_dot
        avoidOldNotation_def startsWith_def substring_def validRange_empty)
qed

text \<open>
  C6, amended. Let \<open>t\<close> be the extracted token. Validation looks at \<open>t\<close> after the
  legacy rewrite, cut before its first \<open>-\<close>. If that is a valid range the value of
  \<open>version\<close> is the rewritten token, uncut; otherwise it is the coerced rewritten
  token. For a distribution outside the major-only list the function returns that
  value: the rewritten token as it is when it is not empty, and else the version
  string of the coerced token, or \<open>null\<close> when there is none.
\<close>

theorem C6_range_or_coerce:
  "hd (split_chr CHR ''-'' (avoidOldNotation t)) =
     takeWhile (\<lambda>c. c \<noteq> CHR ''-'') (avoidOldNotation t) \<and>
   rangeVersion t =
     (if semver_validRange (takeWhile (\<lambda>c. c \<noteq> CHR ''-'') (avoidOldNotation t)) \<noteq> None
      then Some (VString (avoidOldNotation t))
      else map_option VSemVer (semver_coerce (VString (avoidOldNotation t)))) \<and>
   (versionFromFile basename content f = t \<and> t \<noteq> [] \<and> d \<notin> set M \<and>
    avoidOldNotation t \<noteq> [] \<and>
    semver_validRange (takeWhile (\<lambda>c. c \<noteq> CHR ''-'') (avoidOldNotation t)) \<noteq> None \<longrightarrow>
      getVersionFromFileContent basename M content d f = Inr (Some (avoidOldNotation t))) \<and>
   (versionFromFile basename content f = t \<and> t \<noteq> [] \<and> d \<notin> set M \<and>
    semver_validRange (takeWhile (\<lambda>c. c \<noteq> CHR ''-'') (avoidOldNotation t)) = None \<longrightarrow>
      getVersionFromFileContent basename M content d f =
        Inr (map_option sv_version (semver_coerce (VString (avoidOldNotation t)))))"
proof -
  have valid: "getVersionFromFileContent basename M content d f = Inr (Some (avoidOldNotation t))"
    if "versionFromFile basename content f = t" "t \<noteq> []" "d \<notin> set M"
      "avoidOldNotation t \<noteq> []"
      "semver_validRange (takeWhile (\<lambda>c. c \<noteq> CHR ''-'') (avoidOldNotation t)) \<noteq> None"
    using that
    by (simp add: getVersionFromFileContent_def Let_def rangeVersion_eq version_truthy_def
        version_toString_def)
  have coerced: "getVersionFromFileContent basename M content d f =
      Inr (map_option sv_version (semver_coerce (VString (avoidOldNotation t))))"
    if "versionFromFile basename content f = t" "t \<noteq> []" "d \<notin> set M"
      "semver_validRange (takeWhile (\<lambda>c. c \<noteq> CHR ''-'') (avoidOldNotation t)) = None"
    using that
    by (cases "semver_coerce (VString (avoidOldNotation t))")
      (simp_all add: getVersionFromFileContent_def Let_def rangeVersion_eq version_truthy_def
        version_toString_def)
  from valid coerced show ?thesis
    by (simp add: hd_split_chr rangeVersion_eq)
qed

lemma versionFromFile_plain_11_0_2_1:
  "versionFromFile (\<lambda>p. p) ''11.0.2.1'' ''.java-version'' = ''11.0.2.1''"
  by (rule versionFromFile_plain_value [OF _ plain_11_0_2_1]) simp

text \<open>
  The theorem of C6 at the content \<open>1.-ea\<close>, where the empty string is validated and
  \<open>-ea\<close> is returned, and at \<open>11.0.2.1\<close>, which is no range and is coerced.
\<close>

theorem C6_range_or_coerce_witness:
  "versionFromFile (\<lambda>p. p) ''1.-ea'' ''.java-version'' = ''1.-ea'' \<and>
   avoidOldNotation ''1.-ea'' = ''-ea'' \<and>
   takeWhile (\<lambda>c. c \<noteq> CHR ''-'') ''-ea'' = [] \<and>
   semver_validRange [] = Some ''*'' \<and>
   getVersionFromFileContent (\<lambda>p. p) [''corretto''] ''1.-ea'' ''temurin'' ''.java-version'' =
     Inr (Some ''-ea'') \<and>
   versionFromFile (\<lambda>p. p) ''11.0.2.1'' ''.java-version'' = ''11.0.2.1'' \<and>
   semver_validRange ''11.0.2.1'' = None \<and>
   getVersionFromFileContent (\<lambda>p. p) [''corretto''] ''11.0.2.1'' ''temurin'' ''.java-version'' =
     Inr (Some ''11.0.2'')"
  using C6_range_or_coerce [of "''1.-ea''" "\<lambda>p. p" "''1.-ea''" "''.java-version''" "''temurin''"
      "[''corretto'']"]
    C6_range_or_coerce [of "''11.0.2.1''" "\<lambda>p. p" "''11.0.2.1''" "''.java-version''"
      "''temurin''" "[''corretto'']"]
  by (simp add: versionFromFile_plain_1_ea versionFromFile_plain_11_0_2_1 avoidOldNotation_def
      startsWith_def substring_def validRange_empty validRange_11_0_2_1 coerce_11_0_2_1)

subsection \<open>C7 to C10: the platform functions\<close>

lemma join_split_chr: "join [c] (split_chr c s) = s"
proof (induction s)
  case Nil
  show ?case by simp
next
  case (Cons x xs)
  obtain y ys where ys: "split_chr c xs = y # ys"
    using split_chr_not_Nil [of c xs] by (cases "split_chr c xs") auto
  show ?case
  proof (cases "x = c")
    case True
    with Cons ys show ?thesis by simp
  next
    case False
    with Cons ys show ?thesis by (cases ys) auto
  qed
qed

text \<open>
  C8. \<open>getDownloadArchiveExtension\<close> returns \<open>zip\<close> exactly when \<open>process.platform\<close> is
  \<open>win32\<close> and \<open>tar.gz\<close> on every other platform; the platform is its only input.
\<close>

theorem C8_getDownloadArchiveExtension:
  "(getDownloadArchiveExtension platform = ''zip'') = (platform = ''win32'') \<and>
   (getDownloadArchiveExtension platform = ''tar.gz'') = (platform \<noteq> ''win32'') \<and>
   getDownloadArchiveExtension ''win32'' = ''zip'' \<and>
   getDownloadArchiveExtension ''linux'' = ''tar.gz'' \<and>
   getDownloadArchiveExtension ''darwin'' = ''tar.gz''"
  by (simp add: getDownloadArchiveExtension_def)

text \<open>
  C7, as the claim states it, fails where the extension argument is given as the empty
  string: \<open>||=\<close> replaces every falsy value, so the format is inferred from the file
  name, and a path ending in \<open>.tar.gz\<close> goes to the tar extractor, not to the 7z
  fallback that an empty format would select. (\<open>path.extname\<close> of this path is \<open>.gz\<close>.)
\<close>

theorem C7_empty_extension_counterexample:
  "extractJdkFile (\<lambda>p. ''.gz'') ''jdk.tar.gz'' (Some []) = ExtractTar ''jdk.tar.gz'' \<and>
   extractJdkFile (\<lambda>p. ''.gz'') ''jdk.tar.gz'' (Some []) \<noteq> Extract7z ''jdk.tar.gz''"
  by (simp add: extractJdkFile_def archiveFormat_def endsWith_def)

text \<open>
  C7, amended. The format is the extension argument when one is given and is not the
  empty string; otherwise it is \<open>tar.gz\<close> when the path ends in \<open>.tar.gz\<close>, else
  \<open>path.extname\<close> of the path without its first character. The dispatch on the format is
  a closed case split: \<open>tar.gz\<close> and \<open>tar\<close> call the tar extractor, \<open>zip\<close> the zip
  extractor, and every other format the 7z extractor, each on the unchanged path.
\<close>

theorem C7_extractJdkFile_dispatch:
  "archiveFormat extname toolPath (Some (c # cs)) = c # cs \<and>
   archiveFormat extname toolPath (Some []) = archiveFormat extname toolPath None \<and>
   archiveFormat extname toolPath None =
     (if endsWith toolPath ''.tar.gz'' then ''tar.gz'' else drop 1 (extname toolPath)) \<and>
   extractJdkFile extname toolPath extension =
     (if archiveFormat extname toolPath extension \<in> {''tar.gz'', ''tar''} then ExtractTar toolPath
      else if archiveFormat extname toolPath extension = ''zip'' then ExtractZip toolPath
      else Extract7z toolPath)"
  by (simp add: extractJdkFile_def archiveFormat_def substring_def Let_def)

text \<open>
  C9. The headers always hold \<open>accept\<close> with the value
  \<open>application/vnd.github.VERSION.raw\<close>; they hold \<open>authorization\<close>, with the value
  \<open>token t\<close>, exactly when the token input \<open>t\<close> is not empty; and they hold no other key.
\<close>

theorem C9_getGitHubHttpHeaders:
  "getGitHubHttpHeaders getInput ''accept'' = Some ''application/vnd.github.VERSION.raw'' \<and>
   getGitHubHttpHeaders getInput ''authorization'' =
     (if getInput ''token'' = [] then None else Some (''token '' @ getInput ''token'')) \<and>
   dom (getGitHubHttpHeaders getInput) =
     (if getInput ''token'' = [] then {''accept''} else {''accept'', ''authorization''})"
  by (auto simp add: getGitHubHttpHeaders_def Let_def)

text \<open>
  C10. The first three components are joined with a dot; the components after the
  third, when there are any, follow a single plus sign, joined with dots; with three
  components or fewer the result is the components joined with dots and nothing is
  padded, so a dotted string of at most three components is returned as it is. The
  components of an array are its numbers as JavaScript prints them, whatever that
  conversion \<open>Number_toString\<close> is; in the examples with arrays the numbers are small
  non-negative integers, which are printed as their decimal digits.
\<close>

theorem C10_convertVersionToSemver:
  "convertVersionToSemver Number_toString version =
     (if length (versionComponents Number_toString version) > 3
      then join ''.'' (take 3 (versionComponents Number_toString version)) @ ''+'' @
           join ''.'' (drop 3 (versionComponents Number_toString version))
      else join ''.'' (versionComponents Number_toString version)) \<and>
   convertVersionToSemver Number_toString (VersionString s) =
     (if length (split_chr CHR ''.'' s) > 3
      then join ''.'' (take 3 (split_chr CHR ''.'' s)) @ ''+'' @
           join ''.'' (drop 3 (split_chr CHR ''.'' s))
      else s) \<and>
   convertVersionToSemver Number_toString (VersionArray ns) =
     (if length ns > 3
      then join ''.'' (map Number_toString (take 3 ns)) @ ''+'' @
           join ''.'' (map Number_toString (drop 3 ns))
      else join ''.'' (map Number_toString ns)) \<and>
   convertVersionToSemver Number_toString (VersionString ''12.10.2.1.1'') = ''12.10.2+1.1'' \<and>
   convertVersionToSemver number_toString (VersionArray [12, 10, 2, 1, 1]) = ''12.10.2+1.1'' \<and>
   convertVersionToSemver Number_toString (VersionString ''12.10.2.1'') = ''12.10.2+1'' \<and>
   convertVersionToSemver Number_toString (VersionString ''12.10.2'') = ''12.10.2'' \<and>
   convertVersionToSemver number_toString (VersionArray [12, 10]) = ''12.10'' \<and>
   convertVersionToSemver Number_toString (VersionString ''12'') = ''12''"
proof (intro conjI)
  show "convertVersionToSemver Number_toString (VersionString s) =
     (if length (split_chr CHR ''.'' s) > 3
      then join ''.'' (take 3 (split_chr CHR ''.'' s)) @ ''+'' @
           join ''.'' (drop 3 (split_chr CHR ''.'' s))
      else s)"
    using join_split_chr [of "CHR ''.''" s]
    by (simp add: convertVersionToSemver_def versionComponents_def Let_def)
  show "convertVersionToSemver Number_toString (VersionArray ns) =
     (if length ns > 3
      then join ''.'' (map Number_toString (take 3 ns)) @ ''+'' @
           join ''.'' (map Number_toString (drop 3 ns))
      else join ''.'' (map Number_toString ns))"
    by (simp add: convertVersionToSemver_def versionComponents_def Let_def take_map drop_map)
  show "convertVersionToSemver Number_toString (VersionString ''12.10.2.1.1'') = ''12.10.2+1.1''"
    by (simp add: convertVersionToSemver_def versionComponents_def Let_def)
  show "convertVersionToSemver Number_toString (VersionString ''12.10.2.1'') = ''12.10.2+1''"
    by (simp add: convertVersionToSemver_def versionComponents_def Let_def)
  show "convertVersionToSemver Number_toString (VersionString ''12.10.2'') = ''12.10.2''"
    by (simp add: convertVersionToSemver_def versionComponents_def Let_def)
  show "convertVersionToSemver Number_toString (VersionString ''12'') = ''12''"
    by (simp add: convertVersionToSemver_def versionComponents_def Let_def)
qed (simp add: convertVersionToSemver_def Let_def, code_simp+)

end
